theory Spec2Isabelle
  imports Complex_Main "HOL-Library.Sublist"
begin

section \<open>The SunGrid Engine runner (luigi/contrib/sge\_runner.py)\<close>

text \<open>
  The runner is a short effectful script: it reads the argument vector, checks that the
  staging directory exists, optionally unpacks \<^verbatim>\<open>packages.tar\<close>, unpickles the task and
  calls its \<^verbatim>\<open>work()\<close>. Its effects are made explicit here: every function takes the
  state of the process and of the file system (a \<open>world\<close>) and returns the new one,
  together with either the exception that was raised (\<open>Inl\<close>) or the value returned
  (\<open>Inr\<close>).
\<close>

subsection \<open>Exceptions\<close>

datatype errno = ENOENT | ENOTDIR | EISDIR

text \<open>
  The exceptions the runner and the library calls it makes can raise. \<open>Raised c b s\<close> is
  an exception of class \<open>c\<close> raised by one of the opaque parts (unpickling, the task's
  \<^verbatim>\<open>work()\<close>): \<open>b\<close> says whether the class derives from \<^verbatim>\<open>Exception\<close> (\<^verbatim>\<open>SystemExit\<close> and
  \<^verbatim>\<open>KeyboardInterrupt\<close> do not), and \<open>s\<close> is what \<^verbatim>\<open>str(e)\<close> gives.
\<close>

datatype exn =
    AssertionError string
  | IndexError string
  | TypeError string
  | EnvironmentError errno string
  | ReadError string
  | Raised string bool string

fun is_Exception :: "exn \<Rightarrow> bool" where
  "is_Exception (Raised c b s) = b"
| "is_Exception e = True"

fun strerror :: "errno \<Rightarrow> string" where
  "strerror ENOENT = ''[Errno 2] No such file or directory''"
| "strerror ENOTDIR = ''[Errno 20] Not a directory''"
| "strerror EISDIR = ''[Errno 21] Is a directory''"

text \<open>\<^verbatim>\<open>str(e)\<close>, which is what \<^verbatim>\<open>print(e)\<close> writes.\<close>

fun str_exn :: "exn \<Rightarrow> string" where
  "str_exn (AssertionError m) = m"
| "str_exn (IndexError m) = m"
| "str_exn (TypeError m) = m"
| "str_exn (EnvironmentError n f) = strerror n @ '': '' @ [CHR 0x27] @ f @ [CHR 0x27]"
| "str_exn (ReadError m) = m"
| "str_exn (Raised c b s) = s"

subsection \<open>The file system and the process state\<close>

text \<open>
  A file holds raw bytes or is a tar archive, given by its members in order. A member is
  a regular file with a name and a content, or a damaged header, at which reading the
  archive raises \<^verbatim>\<open>tarfile.ReadError\<close>.
\<close>

datatype content = Bytes string | Tar "tar_member list"
  and tar_member = Member string content | Damaged

datatype node = Dir | File content

text \<open>
  The trace is ghost state: it records the calls the runner makes that touch the file
  system or the task, in order, so that "this stage never ran" can be stated.
\<close>

datatype event =
    Ev_chdir string
  | Ev_tar_open string
  | Ev_extract string
  | Ev_open string
  | Ev_pickle_load
  | Ev_work

record world =
  cwd :: string
  sys_path :: "string list"
  fs :: "string \<Rightarrow> node option"
  stdout :: "string list"
  stderr :: "string list"
  time_reads :: nat
  logging_level :: "nat option"
  trace :: "event list"

text \<open>
  What lies outside the runner: unpickling (which may import modules through
  \<^verbatim>\<open>sys.path\<close> and the files on disk), the task's \<^verbatim>\<open>work()\<close>, the clock (\<open>time_at env n\<close>
  is what the \<open>n\<close>-th reading of it gives; the world counts the readings), and the
  formatting of a float and of a time.
\<close>

record 'job env =
  pickle_load :: "world \<Rightarrow> content \<Rightarrow> exn + 'job"
  job_work :: "'job \<Rightarrow> world \<Rightarrow> (exn + unit) \<times> world"
  time_at :: "nat \<Rightarrow> real"
  format_float :: "real \<Rightarrow> string"
  ctime :: "real \<Rightarrow> string"

definition newline :: string where
  "newline = [CHR 0x0A]"

text \<open>Sequencing: an exception skips what follows.\<close>

definition and_then ::
  "(exn + 'a) \<times> world \<Rightarrow> ('a \<Rightarrow> world \<Rightarrow> (exn + 'b) \<times> world) \<Rightarrow> (exn + 'b) \<times> world" where
  "and_then r k = (case r of (Inl e, w) \<Rightarrow> (Inl e, w) | (Inr x, w) \<Rightarrow> k x w)"

subsection \<open>Paths\<close>

definition is_abs :: "string \<Rightarrow> bool" where
  "is_abs p = (case p of [] \<Rightarrow> False | c # cs \<Rightarrow> c = CHR ''/'')"

text \<open>\<^verbatim>\<open>os.path.join(a, b)\<close> of posixpath.\<close>

definition os_path_join :: "string \<Rightarrow> string \<Rightarrow> string" where
  "os_path_join a b =
     (if is_abs b then b
      else if a = [] \<or> last a = CHR ''/'' then a @ b
      else a @ ''/'' @ b)"

text \<open>
  How the operating system resolves a path against the working directory: the path is
  cut at the slashes, empty components and \<^verbatim>\<open>.\<close> are dropped, and \<^verbatim>\<open>..\<close> steps back (at
  the root it stays). Files are stored under resolved paths. Symbolic links are not
  modelled.
\<close>

fun split_path :: "string \<Rightarrow> string list" where
  "split_path [] = [[]]"
| "split_path (c # cs) =
     (if c = CHR ''/'' then [] # split_path cs
      else (case split_path cs of [] \<Rightarrow> [[c]] | x # xs \<Rightarrow> (c # x) # xs))"

fun walk :: "string list \<Rightarrow> string list \<Rightarrow> string list" where
  "walk st [] = rev st"
| "walk st (c # cs) =
     (if c = [] \<or> c = ''.'' then walk st cs
      else if c = ''..'' then walk (tl st) cs
      else walk (c # st) cs)"

definition render_path :: "string list \<Rightarrow> string" where
  "render_path cs = (if cs = [] then ''/'' else concat (map (\<lambda>c. CHR ''/'' # c) cs))"

definition resolve :: "string \<Rightarrow> string \<Rightarrow> string" where
  "resolve d p = render_path (walk [] (split_path (os_path_join d p)))"

text \<open>The node a path names, seen from the working directory; the empty path names none.\<close>

definition lookup :: "world \<Rightarrow> string \<Rightarrow> node option" where
  "lookup w p = (if p = [] then None else fs w (resolve (cwd w) p))"

text \<open>An absolute path in the form the system reports it (\<^verbatim>\<open>os.getcwd()\<close>).\<close>

definition normalised :: "string \<Rightarrow> bool" where
  "normalised p = (is_abs p \<and> render_path (walk [] (split_path p)) = p)"

subsection \<open>Library calls\<close>

definition log_event :: "event \<Rightarrow> world \<Rightarrow> world" where
  "log_event ev w = w\<lparr>trace := trace w @ [ev]\<rparr>"

definition os_getcwd :: "world \<Rightarrow> string" where
  "os_getcwd w = cwd w"

definition os_path_abspath :: "world \<Rightarrow> string \<Rightarrow> string" where
  "os_path_abspath w p = resolve (cwd w) p"

definition os_path_exists :: "world \<Rightarrow> string \<Rightarrow> bool" where
  "os_path_exists w p = (lookup w p \<noteq> None)"

definition os_chdir :: "string \<Rightarrow> world \<Rightarrow> (exn + unit) \<times> world" where
  "os_chdir p w =
     (let w1 = log_event (Ev_chdir (resolve (cwd w) p)) w in
      case lookup w p of
        None \<Rightarrow> (Inl (EnvironmentError ENOENT p), w1)
      | Some (File c) \<Rightarrow> (Inl (EnvironmentError ENOTDIR p), w1)
      | Some Dir \<Rightarrow> (Inr (), w1\<lparr>cwd := resolve (cwd w) p\<rparr>))"

text \<open>\<^verbatim>\<open>open(name, "r")\<close>: the content of the file, read later by \<^verbatim>\<open>pickle.load\<close>.\<close>

definition open_read :: "string \<Rightarrow> world \<Rightarrow> (exn + content) \<times> world" where
  "open_read p w =
     (let w1 = log_event (Ev_open (resolve (cwd w) p)) w in
      case lookup w p of
        None \<Rightarrow> (Inl (EnvironmentError ENOENT p), w1)
      | Some Dir \<Rightarrow> (Inl (EnvironmentError EISDIR p), w1)
      | Some (File c) \<Rightarrow> (Inr c, w1))"

definition tarfile_open :: "string \<Rightarrow> world \<Rightarrow> (exn + tar_member list) \<times> world" where
  "tarfile_open p w =
     (let w1 = log_event (Ev_tar_open (resolve (cwd w) p)) w in
      case lookup w p of
        None \<Rightarrow> (Inl (EnvironmentError ENOENT p), w1)
      | Some Dir \<Rightarrow> (Inl (EnvironmentError EISDIR p), w1)
      | Some (File (Bytes b)) \<Rightarrow> (Inl (ReadError ''file could not be opened successfully''), w1)
      | Some (File (Tar ms)) \<Rightarrow> (Inr ms, w1))"

text \<open>
  \<^verbatim>\<open>tar.extract(tarinfo)\<close> with the default path: the member is written under the working
  directory at its own name. A regular file cannot replace a directory.
\<close>

definition tar_extract :: "string \<Rightarrow> content \<Rightarrow> world \<Rightarrow> (exn + unit) \<times> world" where
  "tar_extract n c w =
     (let target = resolve (cwd w) n;
          w1 = log_event (Ev_extract target) w in
      case fs w target of
        Some Dir \<Rightarrow> (Inl (EnvironmentError EISDIR target), w1)
      | _ \<Rightarrow> (Inr (), w1\<lparr>fs := (fs w)(target \<mapsto> File c)\<rparr>))"

text \<open>\<^verbatim>\<open>time()\<close>, and the clock reading inside \<^verbatim>\<open>ctime()\<close>.\<close>

definition time_now :: "'job env \<Rightarrow> world \<Rightarrow> real \<times> world" where
  "time_now env w = (time_at env (time_reads w), w\<lparr>time_reads := Suc (time_reads w)\<rparr>)"

definition stderr_write :: "string \<Rightarrow> world \<Rightarrow> world" where
  "stderr_write s w = w\<lparr>stderr := stderr w @ [s]\<rparr>"

definition print_stdout :: "string \<Rightarrow> world \<Rightarrow> world" where
  "print_stdout s w = w\<lparr>stdout := stdout w @ [s @ newline]\<rparr>"

text \<open>\<^verbatim>\<open>logging.basicConfig(level=...)\<close> does nothing once logging is configured.\<close>

definition logging_basicConfig :: "nat \<Rightarrow> world \<Rightarrow> world" where
  "logging_basicConfig lvl w =
     (case logging_level w of None \<Rightarrow> w\<lparr>logging_level := Some lvl\<rparr> | Some l \<Rightarrow> w)"

text \<open>\<^verbatim>\<open>args[i]\<close> for an index that is not negative.\<close>

definition list_index :: "'a list \<Rightarrow> nat \<Rightarrow> world \<Rightarrow> (exn + 'a) \<times> world" where
  "list_index xs i w =
     (if i < length xs then (Inr (xs ! i), w) else (Inl (IndexError ''list index out of range''), w))"

text \<open>\<^verbatim>\<open>pickle.load(f)\<close> and \<^verbatim>\<open>job.work()\<close>; the task cannot alter the ghost trace.\<close>

definition pickle_load_file :: "'job env \<Rightarrow> content \<Rightarrow> world \<Rightarrow> (exn + 'job) \<times> world" where
  "pickle_load_file env f w = (pickle_load env w f, log_event Ev_pickle_load w)"

definition run_work :: "'job env \<Rightarrow> 'job \<Rightarrow> world \<Rightarrow> (exn + unit) \<times> world" where
  "run_work env job w =
     (let w1 = log_event Ev_work w in
      case job_work env job w1 of (r, w2) \<Rightarrow> (r, w2\<lparr>trace := trace w1\<rparr>))"

subsection \<open>The runner\<close>

text \<open>The loop \<^verbatim>\<open>for tarinfo in tar: tar.extract(tarinfo)\<close>.\<close>

fun extract_members :: "tar_member list \<Rightarrow> world \<Rightarrow> (exn + unit) \<times> world" where
  "extract_members [] w = (Inr (), w)"
| "extract_members (Damaged # ms) w = (Inl (ReadError ''bad checksum''), w)"
| "extract_members (Member n c # ms) w =
     (case tar_extract n c w of
        (Inl e, w1) \<Rightarrow> (Inl e, w1)
      | (Inr u, w1) \<Rightarrow> extract_members ms w1)"

definition sys_path_insert_empty :: "world \<Rightarrow> world" where
  "sys_path_insert_empty w =
     (if [] \<notin> set (sys_path w) then w\<lparr>sys_path := [] # sys_path w\<rparr> else w)"

definition extract_packages_archive :: "string \<Rightarrow> world \<Rightarrow> (exn + unit) \<times> world" where
  "extract_packages_archive work_dir w =
     (let package_file = os_path_join work_dir ''packages.tar'' in
      if \<not> os_path_exists w package_file then (Inr (), w)
      else
        let curdir = os_path_abspath w ''.'' in
        and_then (os_chdir work_dir w) (\<lambda>u w1.
        and_then (tarfile_open package_file w1) (\<lambda>tar w2.
        and_then (extract_members tar w2) (\<lambda>u w3.
        os_chdir curdir (sys_path_insert_empty w3)))))"

text \<open>
  \<^verbatim>\<open>if debug: sys.stderr.write("<what> after {} seconds\n".format(time() - start_time))\<close>;
  the subtraction raises when \<^verbatim>\<open>start_time\<close> is \<^verbatim>\<open>None\<close>.
\<close>

definition debug_write ::
  "'job env \<Rightarrow> bool \<Rightarrow> string \<Rightarrow> real option \<Rightarrow> world \<Rightarrow> (exn + unit) \<times> world" where
  "debug_write env debug what start_time w =
     (if debug then
        (case time_now env w of (t1, w1) \<Rightarrow>
           (case start_time of
              None \<Rightarrow> (Inl (TypeError ''unsupported operand type(s) for -''), w1)
            | Some t \<Rightarrow>
                (Inr (), stderr_write
                   (what @ '' after '' @ format_float env (t1 - t) @ '' seconds'' @ newline) w1)))
      else (Inr (), w))"

text \<open>
  Lines 58 to 69 of \<^verbatim>\<open>_do_work_on_compute_node\<close>: the task is unpickled in the staging
  directory and its work is run in \<open>cwd0\<close>, the directory saved on entry.
\<close>

definition load_and_run ::
  "'job env \<Rightarrow> string \<Rightarrow> string \<Rightarrow> string \<Rightarrow> real option \<Rightarrow> bool \<Rightarrow> world
     \<Rightarrow> (exn + unit) \<times> world" where
  "load_and_run env cwd0 work_dir random_id start_time debug w =
     and_then (os_chdir work_dir w) (\<lambda>u w3.
     and_then (open_read (random_id @ ''.job-instance.pickle'') w3) (\<lambda>f w4.
     and_then (pickle_load_file env f w4) (\<lambda>job w5.
     and_then (debug_write env debug ''loaded pickled data'' start_time w5) (\<lambda>u w6.
     and_then (os_chdir cwd0 w6) (\<lambda>u w7.
     run_work env job w7)))))"

definition do_work_on_compute_node ::
  "'job env \<Rightarrow> string \<Rightarrow> string \<Rightarrow> bool \<Rightarrow> real option \<Rightarrow> bool \<Rightarrow> world
     \<Rightarrow> (exn + unit) \<times> world" where
  "do_work_on_compute_node env work_dir random_id tarball start_time debug w =
     (let cwd0 = os_getcwd w in
      and_then (if tarball then extract_packages_archive work_dir w else (Inr (), w)) (\<lambda>u w1.
      and_then (debug_write env debug ''extracted tar'' start_time w1) (\<lambda>u w2.
      load_and_run env cwd0 work_dir random_id start_time debug w2)))"

text \<open>
  Lines 117 to 121 of \<^verbatim>\<open>main\<close>: with \<^verbatim>\<open>--debug\<close> the clock is read for \<^verbatim>\<open>start_time\<close>
  and the starting line is written; without it \<^verbatim>\<open>start_time\<close> is \<^verbatim>\<open>None\<close>.
\<close>

definition start_debug :: "'job env \<Rightarrow> bool \<Rightarrow> world \<Rightarrow> real option \<times> world" where
  "start_debug env debug w =
     (if debug then
        (case time_now env w of (t, wa) \<Rightarrow>
           (case time_now env wa of (c, wb) \<Rightarrow>
              (Some t, stderr_write (''starting at '' @ ctime env c @ newline) wb)))
      else (None, w))"

text \<open>The body of the \<^verbatim>\<open>try\<close> block of \<^verbatim>\<open>main\<close>.\<close>

definition main_try :: "'job env \<Rightarrow> string list \<Rightarrow> world \<Rightarrow> (exn + unit) \<times> world" where
  "main_try env args w =
     (let debug = (''--debug'' \<in> set args);
          (start_time, w1) = start_debug env debug w;
          tarball = (''--tarball'' \<in> set args);
          w2 = logging_basicConfig 30 w1 in
      and_then (list_index args 1 w2) (\<lambda>work_dir w3.
      if \<not> os_path_exists w3 work_dir then
        (Inl (AssertionError
           ''First argument to sge_runner.py must be a directory that exists''), w3)
      else
        and_then (list_index args 2 w3) (\<lambda>project_dir w4.
        and_then (list_index args 3 (w4\<lparr>sys_path := sys_path w4 @ [project_dir]\<rparr>))
          (\<lambda>random_id w5.
        do_work_on_compute_node env work_dir random_id tarball start_time debug w5))))"

text \<open>
  \<^verbatim>\<open>except Exception as e: print(e); raise\<close>: an exception whose class derives from
  \<^verbatim>\<open>Exception\<close> is printed and raised again; any other passes through the handler.
\<close>

definition main :: "'job env \<Rightarrow> string list \<Rightarrow> world \<Rightarrow> (exn + unit) \<times> world" where
  "main env args w =
     (case main_try env args w of
        (Inl e, w1) \<Rightarrow>
          if is_Exception e then (Inl e, print_stdout (str_exn e) w1) else (Inl e, w1)
      | (Inr u, w1) \<Rightarrow> (Inr u, w1))"

subsection \<open>Concrete processes and staging directories\<close>

text \<open>A fresh process in working directory \<open>d\<close> over the files \<open>files\<close>.\<close>

definition world_of :: "string \<Rightarrow> (string \<Rightarrow> node option) \<Rightarrow> world" where
  "world_of d files =
     \<lparr>cwd = d, sys_path = [], fs = files, stdout = [], stderr = [], time_reads = 0,
      logging_level = None, trace = []\<rparr>"

text \<open>
  An environment in which the bytes \<open>task\<close> unpickle to task \<open>0\<close>, whose work returns,
  and to nothing else; its clock stands still.
\<close>

definition env0 :: "nat env" where
  "env0 =
     \<lparr>pickle_load = (\<lambda>w c. if c = Bytes ''task'' then Inr 0
                            else Inl (Raised ''UnpicklingError'' True ''invalid load key'')),
      job_work = (\<lambda>j w. (Inr (), w)),
      time_at = (\<lambda>n. 0),
      format_float = (\<lambda>r. ''0.0''),
      ctime = (\<lambda>r. ''Thu Jan  1 00:00:00 1970'')\<rparr>"

text \<open>A staging directory \<^verbatim>\<open>/stage\<close> holding the task of job \<open>42\<close>.\<close>

definition staged :: "string \<Rightarrow> node option" where
  "staged = [''/home'' \<mapsto> Dir, ''/stage'' \<mapsto> Dir,
             ''/stage/42.job-instance.pickle'' \<mapsto> File (Bytes ''task'')]"

text \<open>An environment whose task calls \<^verbatim>\<open>sys.exit(1)\<close> in its work.\<close>

definition env_exit :: "nat env" where
  "env_exit = env0\<lparr>job_work := (\<lambda>j w. (Inl (Raised ''SystemExit'' False ''1''), w))\<rparr>"

text \<open>Staging directories: with an archive that is not a tar file, with an archive of one
  module, the same under a relative path, with the task only inside the archive, with a
  task file that does not unpickle, and with no task file.\<close>

definition staged_corrupt :: "string \<Rightarrow> node option" where
  "staged_corrupt = staged(''/stage/packages.tar'' \<mapsto> File (Bytes ''garbage''))"

definition staged_archive :: "string \<Rightarrow> node option" where
  "staged_archive =
     staged(''/stage/packages.tar'' \<mapsto> File (Tar [Member ''helper.mod'' (Bytes ''code'')]))"

definition staged_relative :: "string \<Rightarrow> node option" where
  "staged_relative = [''/home'' \<mapsto> Dir, ''/home/stage'' \<mapsto> Dir,
     ''/home/stage/42.job-instance.pickle'' \<mapsto> File (Bytes ''task''),
     ''/home/stage/packages.tar'' \<mapsto> File (Tar [Member ''helper.mod'' (Bytes ''code'')])]"

definition staged_blob_in_archive :: "string \<Rightarrow> node option" where
  "staged_blob_in_archive = [''/home'' \<mapsto> Dir, ''/stage'' \<mapsto> Dir,
     ''/stage/packages.tar'' \<mapsto>
        File (Tar [Member ''42.job-instance.pickle'' (Bytes ''task'')])]"

definition staged_bad_blob :: "string \<Rightarrow> node option" where
  "staged_bad_blob = staged(''/stage/42.job-instance.pickle'' \<mapsto> File (Bytes ''garbage''))"

definition staged_no_blob :: "string \<Rightarrow> node option" where
  "staged_no_blob = [''/home'' \<mapsto> Dir, ''/stage'' \<mapsto> Dir]"

subsection \<open>The argument contract, as the specification words it\<close>

text \<open>
  \<^verbatim>\<open><program> [--debug] [--tarball] <staging_dir> <project_dir> <job_id>\<close>, "flags may
  appear anywhere": after the program name, the arguments that are not flags are the
  staging directory, the project directory and the job identifier, in this order, and
  each flag occurs at most once.
\<close>

definition is_flag :: "string \<Rightarrow> bool" where
  "is_flag a = (a = ''--debug'' \<or> a = ''--tarball'')"

fun matches_contract :: "string list \<Rightarrow> string \<Rightarrow> string \<Rightarrow> string \<Rightarrow> bool" where
  "matches_contract [] s p j = False"
| "matches_contract (prog # rest) s p j =
     (filter (\<lambda>a. \<not> is_flag a) rest = [s, p, j]
      \<and> count_list rest ''--debug'' \<le> 1 \<and> count_list rest ''--tarball'' \<le> 1)"

section \<open>Properties\<close>

lemmas runner_defs =
  main_def main_try_def do_work_on_compute_node_def load_and_run_def and_then_def list_index_def
  os_path_exists_def lookup_def resolve_def os_path_join_def is_abs_def render_path_def
  logging_basicConfig_def debug_write_def os_getcwd_def os_chdir_def open_read_def
  pickle_load_file_def run_work_def log_event_def Let_def stderr_write_def print_stdout_def
  extract_packages_archive_def tarfile_open_def tar_extract_def sys_path_insert_empty_def
  os_path_abspath_def newline_def time_now_def start_debug_def

lemmas staging_defs = staged_def staged_corrupt_def staged_archive_def staged_relative_def
  staged_blob_in_archive_def staged_bad_blob_def staged_no_blob_def world_of_def env0_def
  env_exit_def

subsection \<open>What a lookup depends on\<close>

lemma lookup_frame [simp]:
  "lookup (w\<lparr>stderr := a\<rparr>) p = lookup w p"
  "lookup (w\<lparr>stdout := b\<rparr>) p = lookup w p"
  "lookup (w\<lparr>sys_path := c\<rparr>) p = lookup w p"
  "lookup (w\<lparr>logging_level := d\<rparr>) p = lookup w p"
  "lookup (w\<lparr>trace := e\<rparr>) p = lookup w p"
  "lookup (w\<lparr>time_reads := k\<rparr>) p = lookup w p"
  by (simp_all add: lookup_def)

lemma lookup_setup [simp]:
  "lookup (logging_basicConfig n w) p = lookup w p"
  "lookup (stderr_write s w) p = lookup w p"
  "lookup (log_event ev w) p = lookup w p"
  by (simp_all add: logging_basicConfig_def stderr_write_def log_event_def split: option.splits)

subsection \<open>The precondition check\<close>

text \<open>
  C3. When the path given as first argument does not exist, \<open>main\<close> raises the assertion
  error and no later stage runs: the trace gains no event (no change of directory, no
  archive opened or extracted, no file opened, no unpickling, no call of the task's
  work), and the working directory, the files and the search path are as before.
\<close>

theorem missing_staging_dir_stops_main:
  assumes "1 < length args" and "\<not> os_path_exists w (args ! 1)"
  shows "\<exists>w'. main env args w =
           (Inl (AssertionError
              ''First argument to sge_runner.py must be a directory that exists''), w')
         \<and> trace w' = trace w \<and> cwd w' = cwd w \<and> fs w' = fs w \<and> sys_path w' = sys_path w"
  using assms
  by (simp add: main_def main_try_def list_index_def and_then_def os_path_exists_def Let_def
      print_stdout_def logging_basicConfig_def stderr_write_def time_now_def start_debug_def
      split: option.splits prod.splits)

theorem missing_staging_dir_stops_main_witness:
  "1 < length [''sge_runner.py'', ''/missing'', ''/proj'', ''42'']
   \<and> \<not> os_path_exists (world_of ''/home'' staged)
         ([''sge_runner.py'', ''/missing'', ''/proj'', ''42''] ! 1)
   \<and> (\<exists>w'. main env0 [''sge_runner.py'', ''/missing'', ''/proj'', ''42'']
              (world_of ''/home'' staged) =
           (Inl (AssertionError
              ''First argument to sge_runner.py must be a directory that exists''), w')
         \<and> trace w' = trace (world_of ''/home'' staged)
         \<and> cwd w' = cwd (world_of ''/home'' staged)
         \<and> fs w' = fs (world_of ''/home'' staged)
         \<and> sys_path w' = sys_path (world_of ''/home'' staged))"
proof -
  have len: "1 < length [''sge_runner.py'', ''/missing'', ''/proj'', ''42'']"
    by simp
  have missing: "\<not> os_path_exists (world_of ''/home'' staged)
                   ([''sge_runner.py'', ''/missing'', ''/proj'', ''42''] ! 1)"
    by (simp add: runner_defs staging_defs)
  from missing_staging_dir_stops_main [OF len missing, of env0] len missing
  show ?thesis by blast
qed

subsection \<open>Fields left alone by the writes\<close>

lemma logging_basicConfig_fields [simp]:
  "cwd (logging_basicConfig n w) = cwd w"
  "sys_path (logging_basicConfig n w) = sys_path w"
  "fs (logging_basicConfig n w) = fs w"
  "stdout (logging_basicConfig n w) = stdout w"
  "stderr (logging_basicConfig n w) = stderr w"
  "time_reads (logging_basicConfig n w) = time_reads w"
  "trace (logging_basicConfig n w) = trace w"
  by (simp_all add: logging_basicConfig_def split: option.splits)

lemma stderr_write_fields [simp]:
  "cwd (stderr_write s w) = cwd w"
  "sys_path (stderr_write s w) = sys_path w"
  "fs (stderr_write s w) = fs w"
  "stdout (stderr_write s w) = stdout w"
  "stderr (stderr_write s w) = stderr w @ [s]"
  "time_reads (stderr_write s w) = time_reads w"
  "logging_level (stderr_write s w) = logging_level w"
  "trace (stderr_write s w) = trace w"
  by (simp_all add: stderr_write_def)

lemma log_event_fields [simp]:
  "cwd (log_event ev w) = cwd w"
  "sys_path (log_event ev w) = sys_path w"
  "fs (log_event ev w) = fs w"
  "stdout (log_event ev w) = stdout w"
  "stderr (log_event ev w) = stderr w"
  "time_reads (log_event ev w) = time_reads w"
  "logging_level (log_event ev w) = logging_level w"
  "trace (log_event ev w) = trace w @ [ev]"
  by (simp_all add: log_event_def)

lemma print_stdout_fields [simp]:
  "cwd (print_stdout s w) = cwd w"
  "sys_path (print_stdout s w) = sys_path w"
  "fs (print_stdout s w) = fs w"
  "stdout (print_stdout s w) = stdout w @ [s @ newline]"
  "stderr (print_stdout s w) = stderr w"
  "time_reads (print_stdout s w) = time_reads w"
  "logging_level (print_stdout s w) = logging_level w"
  "trace (print_stdout s w) = trace w"
  by (simp_all add: print_stdout_def)

lemma start_debug_fields [simp]:
  "cwd (snd (start_debug env dbg w)) = cwd w"
  "sys_path (snd (start_debug env dbg w)) = sys_path w"
  "fs (snd (start_debug env dbg w)) = fs w"
  "stdout (snd (start_debug env dbg w)) = stdout w"
  "logging_level (snd (start_debug env dbg w)) = logging_level w"
  "trace (snd (start_debug env dbg w)) = trace w"
  "stderr (snd (start_debug env dbg w)) = stderr w @
     (if dbg then [''starting at '' @ ctime env (time_at env (Suc (time_reads w))) @ newline]
      else [])"
  "time_reads (snd (start_debug env dbg w)) = (if dbg then time_reads w + 2 else time_reads w)"
  "fst (start_debug env dbg w) = (if dbg then Some (time_at env (time_reads w)) else None)"
  by (simp_all add: start_debug_def time_now_def)

lemma lookup_start_debug [simp]:
  "lookup (snd (start_debug env dbg w)) p = lookup w p"
  by (simp add: lookup_def)

subsection \<open>Effects of the library calls\<close>

lemma and_then_cases:
  assumes "and_then m k = (r, w')"
  shows "(\<exists>e. m = (Inl e, w') \<and> r = Inl e) \<or> (\<exists>x w1. m = (Inr x, w1) \<and> k x w1 = (r, w'))"
  using assms by (auto simp: and_then_def split: prod.splits sum.splits)

lemma os_chdir_effect:
  assumes "os_chdir p w = (r, w')"
  shows "sys_path w' = sys_path w \<and> fs w' = fs w \<and> stdout w' = stdout w
       \<and> stderr w' = stderr w \<and> time_reads w' = time_reads w \<and> logging_level w' = logging_level w
       \<and> trace w' = trace w @ [Ev_chdir (resolve (cwd w) p)]
       \<and> (case r of Inr u \<Rightarrow> lookup w p = Some Dir \<and> cwd w' = resolve (cwd w) p
                   | Inl e \<Rightarrow> lookup w p \<noteq> Some Dir \<and> cwd w' = cwd w \<and> is_Exception e)"
  using assms by (auto simp: os_chdir_def Let_def split: option.splits node.splits)

lemma open_read_effect:
  assumes "open_read p w = (r, w')"
  shows "cwd w' = cwd w \<and> sys_path w' = sys_path w \<and> fs w' = fs w \<and> stdout w' = stdout w
       \<and> stderr w' = stderr w \<and> time_reads w' = time_reads w \<and> logging_level w' = logging_level w
       \<and> trace w' = trace w @ [Ev_open (resolve (cwd w) p)]
       \<and> (case r of Inr c \<Rightarrow> lookup w p = Some (File c)
                   | Inl e \<Rightarrow> (\<forall>c. lookup w p \<noteq> Some (File c)) \<and> is_Exception e)"
  using assms by (auto simp: open_read_def Let_def split: option.splits node.splits)

lemma tarfile_open_effect:
  assumes "tarfile_open p w = (r, w')"
  shows "cwd w' = cwd w \<and> sys_path w' = sys_path w \<and> fs w' = fs w \<and> stdout w' = stdout w
       \<and> stderr w' = stderr w \<and> time_reads w' = time_reads w \<and> logging_level w' = logging_level w
       \<and> trace w' = trace w @ [Ev_tar_open (resolve (cwd w) p)]
       \<and> (case r of Inr ms \<Rightarrow> lookup w p = Some (File (Tar ms))
                   | Inl e \<Rightarrow> (\<forall>ms. lookup w p \<noteq> Some (File (Tar ms))) \<and> is_Exception e)"
  using assms
  by (auto simp: tarfile_open_def Let_def split: option.splits node.splits content.splits)

lemma tar_extract_effect:
  assumes "tar_extract n c w = (r, w')"
  shows "cwd w' = cwd w \<and> sys_path w' = sys_path w \<and> stdout w' = stdout w
       \<and> stderr w' = stderr w \<and> time_reads w' = time_reads w \<and> logging_level w' = logging_level w
       \<and> trace w' = trace w @ [Ev_extract (resolve (cwd w) n)]
       \<and> (\<forall>q. fs w' q = Some Dir \<longleftrightarrow> fs w q = Some Dir)
       \<and> (\<forall>q. q \<noteq> resolve (cwd w) n \<longrightarrow> fs w' q = fs w q)
       \<and> (case r of Inr u \<Rightarrow> fs w' (resolve (cwd w) n) = Some (File c)
                      \<and> fs w (resolve (cwd w) n) \<noteq> Some Dir
                   | Inl e \<Rightarrow> fs w' = fs w \<and> fs w (resolve (cwd w) n) = Some Dir
                      \<and> is_Exception e)"
  using assms
  by (auto simp: tar_extract_def Let_def split: option.splits node.splits if_splits)

lemma extract_members_frame:
  assumes "extract_members ms w = (r, w')"
  shows "cwd w' = cwd w \<and> sys_path w' = sys_path w \<and> stdout w' = stdout w
       \<and> stderr w' = stderr w \<and> time_reads w' = time_reads w \<and> logging_level w' = logging_level w
       \<and> count_list (trace w') Ev_work = count_list (trace w) Ev_work
       \<and> (\<forall>q. fs w' q = Some Dir \<longleftrightarrow> fs w q = Some Dir)
       \<and> (\<forall>e. r = Inl e \<longrightarrow> is_Exception e)"
  using assms
proof (induction ms w rule: extract_members.induct)
  case (1 w)
  then show ?case by auto
next
  case (2 ms w)
  then show ?case by auto
next
  case (3 n c ms w)
  obtain r1 w1 where step: "tar_extract n c w = (r1, w1)"
    by (cases "tar_extract n c w")
  note eff = tar_extract_effect [OF step]
  show ?case
  proof (cases r1)
    case (Inl e)
    with 3 step eff show ?thesis by auto
  next
    case (Inr u)
    with 3(2) step have rest: "extract_members ms w1 = (r, w')" by simp
    from 3(1) [OF step [symmetric] Inr rest] eff show ?thesis by simp
  qed
qed

lemma extract_members_untouched:
  assumes "extract_members ms w = (r, w')"
    and "\<forall>n c. Member n c \<in> set ms \<longrightarrow> resolve (cwd w) n \<noteq> q"
  shows "fs w' q = fs w q"
  using assms
proof (induction ms w rule: extract_members.induct)
  case (1 w)
  then show ?case by simp
next
  case (2 ms w)
  then show ?case by auto
next
  case (3 n c ms w)
  obtain r1 w1 where step: "tar_extract n c w = (r1, w1)"
    by (cases "tar_extract n c w")
  note eff = tar_extract_effect [OF step]
  from 3(3) have here: "resolve (cwd w) n \<noteq> q" by auto
  show ?case
  proof (cases r1)
    case (Inl e)
    with 3 step eff show ?thesis by auto
  next
    case (Inr u)
    with 3(2) step have rest: "extract_members ms w1 = (r, w')" by simp
    from 3(3) eff have "\<forall>n c. Member n c \<in> set ms \<longrightarrow> resolve (cwd w1) n \<noteq> q" by auto
    from 3(1) [OF step [symmetric] Inr rest this] eff here show ?thesis by auto
  qed
qed

subsection \<open>Resolution of paths\<close>

lemma split_path_nonempty [simp]: "split_path p \<noteq> []"
  by (induction p) (auto split: list.splits)

lemma split_path_append_slash:
  "split_path (a @ CHR ''/'' # b) = split_path a @ split_path b"
proof (induction a)
  case Nil
  show ?case by simp
next
  case (Cons c a)
  then show ?case
    by (cases "split_path a") auto
qed

lemma walk_append_skip:
  "c = [] \<or> c = ''.'' \<Longrightarrow> walk st (xs @ [c]) = walk st xs"
  by (induction xs arbitrary: st) auto

lemma resolve_absolute: "is_abs p \<Longrightarrow> resolve d p = render_path (walk [] (split_path p))"
  by (simp add: resolve_def os_path_join_def)

lemma resolve_normalised: "normalised p \<Longrightarrow> resolve d p = p"
  by (simp add: normalised_def resolve_absolute)

lemma resolve_dot: 
  assumes "normalised d"
  shows "resolve d ''.'' = d"
proof -
  from assms have ne: "d \<noteq> []" and norm: "render_path (walk [] (split_path d)) = d"
    by (auto simp: normalised_def is_abs_def)
  show ?thesis
  proof (cases "last d = CHR ''/''")
    case True
    with ne have d: "d = butlast d @ ''/''"
      by (metis append_butlast_last_id)
    have "split_path (butlast d @ ''/.'') = split_path (butlast d) @ [''.'']"
      by (simp add: split_path_append_slash)
    moreover have "split_path (butlast d @ ''/'') = split_path (butlast d) @ [[]]"
      by (simp add: split_path_append_slash)
    ultimately have "walk [] (split_path (butlast d @ ''/.'')) = walk [] (split_path (butlast d @ ''/''))"
      by (simp add: walk_append_skip)
    moreover have "os_path_join d ''.'' = butlast d @ ''/.''"
      using True ne d by (simp add: os_path_join_def is_abs_def)
    ultimately show ?thesis
      using norm d by (simp add: resolve_def)
  next
    case False
    with ne have "os_path_join d ''.'' = d @ ''/.''"
      by (simp add: os_path_join_def is_abs_def)
    moreover have "split_path (d @ ''/.'') = split_path d @ [''.'']"
      by (simp add: split_path_append_slash)
    ultimately show ?thesis
      using norm by (simp add: resolve_def walk_append_skip)
  qed
qed

lemma lookup_cong: "fs v = fs w \<Longrightarrow> cwd v = cwd w \<Longrightarrow> lookup v p = lookup w p"
  by (simp add: lookup_def)

subsection \<open>The extractor\<close>

lemma sys_path_insert_empty_fields [simp]:
  "cwd (sys_path_insert_empty w) = cwd w"
  "fs (sys_path_insert_empty w) = fs w"
  "stdout (sys_path_insert_empty w) = stdout w"
  "stderr (sys_path_insert_empty w) = stderr w"
  "time_reads (sys_path_insert_empty w) = time_reads w"
  "logging_level (sys_path_insert_empty w) = logging_level w"
  "trace (sys_path_insert_empty w) = trace w"
  by (simp_all add: sys_path_insert_empty_def)

lemma lookup_sys_path_insert_empty [simp]:
  "lookup (sys_path_insert_empty w) p = lookup w p"
  by (simp add: lookup_def)

text \<open>What the extractor leaves alone, whatever it returns.\<close>

lemma extract_packages_archive_frame:
  assumes "extract_packages_archive work_dir w = (r, w')"
  shows "stdout w' = stdout w \<and> stderr w' = stderr w \<and> time_reads w' = time_reads w
       \<and> logging_level w' = logging_level w
       \<and> count_list (trace w') Ev_work = count_list (trace w) Ev_work
       \<and> (\<forall>q. fs w' q = Some Dir \<longleftrightarrow> fs w q = Some Dir)
       \<and> (\<forall>e. r = Inl e \<longrightarrow> is_Exception e)"
proof (cases "os_path_exists w (os_path_join work_dir ''packages.tar'')")
  case False
  with assms show ?thesis by (auto simp: extract_packages_archive_def)
next
  case True
  with assms have run:
    "and_then (os_chdir work_dir w) (\<lambda>u w1.
     and_then (tarfile_open (os_path_join work_dir ''packages.tar'') w1) (\<lambda>tar w2.
     and_then (extract_members tar w2) (\<lambda>u w3.
     os_chdir (os_path_abspath w ''.'') (sys_path_insert_empty w3)))) = (r, w')"
    by (simp add: extract_packages_archive_def Let_def)
  from and_then_cases [OF run] show ?thesis
  proof (elim disjE exE conjE)
    fix e assume "os_chdir work_dir w = (Inl e, w')" "r = Inl e"
    with os_chdir_effect [of work_dir w "Inl e" w'] show ?thesis by simp
  next
    fix u w1
    assume c1: "os_chdir work_dir w = (Inr u, w1)"
      and run2: "and_then (tarfile_open (os_path_join work_dir ''packages.tar'') w1) (\<lambda>tar w2.
         and_then (extract_members tar w2) (\<lambda>u w3.
         os_chdir (os_path_abspath w ''.'') (sys_path_insert_empty w3))) = (r, w')"
    note e1 = os_chdir_effect [OF c1]
    from and_then_cases [OF run2] show ?thesis
    proof (elim disjE exE conjE)
      fix e assume "tarfile_open (os_path_join work_dir ''packages.tar'') w1 = (Inl e, w')" "r = Inl e"
      with tarfile_open_effect [of _ w1 "Inl e" w'] e1 show ?thesis by simp
    next
      fix ms w2
      assume c2: "tarfile_open (os_path_join work_dir ''packages.tar'') w1 = (Inr ms, w2)"
        and run3: "and_then (extract_members ms w2) (\<lambda>u w3.
           os_chdir (os_path_abspath w ''.'') (sys_path_insert_empty w3)) = (r, w')"
      note e2 = tarfile_open_effect [OF c2]
      from and_then_cases [OF run3] show ?thesis
      proof (elim disjE exE conjE)
        fix e assume "extract_members ms w2 = (Inl e, w')" "r = Inl e"
        with extract_members_frame [of ms w2 "Inl e" w'] e1 e2 show ?thesis by simp
      next
        fix u3 w3
        assume c3: "extract_members ms w2 = (Inr u3, w3)"
          and c4: "os_chdir (os_path_abspath w ''.'') (sys_path_insert_empty w3) = (r, w')"
        note e3 = extract_members_frame [OF c3]
        note e4 = os_chdir_effect [OF c4]
        from e1 e2 e3 e4 show ?thesis
          by (cases r) simp_all
      qed
    qed
  qed
qed

text \<open>Where the extractor leaves the working directory.\<close>

lemma extract_packages_archive_cwd:
  assumes run0: "extract_packages_archive work_dir w = (r, w')"
    and norm: "normalised (cwd w)"
  shows "(r = Inr () \<longrightarrow> cwd w' = cwd w)
       \<and> (\<forall>e. r = Inl e \<longrightarrow> lookup w work_dir = Some Dir
              \<longrightarrow> os_path_exists w (os_path_join work_dir ''packages.tar'')
              \<longrightarrow> cwd w' = resolve (cwd w) work_dir)"
proof (cases "os_path_exists w (os_path_join work_dir ''packages.tar'')")
  case False
  with run0 show ?thesis by (auto simp: extract_packages_archive_def)
next
  case True
  have curdir: "os_path_abspath w ''.'' = cwd w"
    using norm by (simp add: os_path_abspath_def resolve_dot)
  with True run0 have run:
    "and_then (os_chdir work_dir w) (\<lambda>u w1.
     and_then (tarfile_open (os_path_join work_dir ''packages.tar'') w1) (\<lambda>tar w2.
     and_then (extract_members tar w2) (\<lambda>u w3.
     os_chdir (cwd w) (sys_path_insert_empty w3)))) = (r, w')"
    by (simp add: extract_packages_archive_def Let_def)
  from and_then_cases [OF run] show ?thesis
  proof (elim disjE exE conjE)
    fix e assume "os_chdir work_dir w = (Inl e, w')" "r = Inl e"
    with os_chdir_effect [of work_dir w "Inl e" w'] show ?thesis by simp
  next
    fix u w1
    assume c1: "os_chdir work_dir w = (Inr u, w1)"
      and run2: "and_then (tarfile_open (os_path_join work_dir ''packages.tar'') w1) (\<lambda>tar w2.
         and_then (extract_members tar w2) (\<lambda>u w3.
         os_chdir (cwd w) (sys_path_insert_empty w3))) = (r, w')"
    note e1 = os_chdir_effect [OF c1]
    from and_then_cases [OF run2] show ?thesis
    proof (elim disjE exE conjE)
      fix e assume "tarfile_open (os_path_join work_dir ''packages.tar'') w1 = (Inl e, w')" "r = Inl e"
      with tarfile_open_effect [of _ w1 "Inl e" w'] e1 show ?thesis by simp
    next
      fix ms w2
      assume c2: "tarfile_open (os_path_join work_dir ''packages.tar'') w1 = (Inr ms, w2)"
        and run3: "and_then (extract_members ms w2) (\<lambda>u w3.
           os_chdir (cwd w) (sys_path_insert_empty w3)) = (r, w')"
      note e2 = tarfile_open_effect [OF c2]
      from and_then_cases [OF run3] show ?thesis
      proof (elim disjE exE conjE)
        fix e assume "extract_members ms w2 = (Inl e, w')" "r = Inl e"
        with extract_members_frame [of ms w2 "Inl e" w'] e1 e2 show ?thesis by simp
      next
        fix u3 w3
        assume c3: "extract_members ms w2 = (Inr u3, w3)"
          and c4: "os_chdir (cwd w) (sys_path_insert_empty w3) = (r, w')"
        note e3 = extract_members_frame [OF c3]
        note e4 = os_chdir_effect [OF c4]
        from e1 e2 e3 e4 norm show ?thesis
          by (cases r) (simp_all add: resolve_normalised)
      qed
    qed
  qed
qed

subsection \<open>The materializer\<close>

lemma debug_write_effect:
  assumes "debug_write env debug what st w = (r, w')"
  shows "cwd w' = cwd w \<and> sys_path w' = sys_path w \<and> fs w' = fs w \<and> stdout w' = stdout w
       \<and> logging_level w' = logging_level w \<and> trace w' = trace w
       \<and> (case r of
             Inr u \<Rightarrow> (debug \<longrightarrow> (\<exists>t. st = Some t \<and> stderr w' = stderr w @
                          [what @ '' after '' @ format_float env (time_at env (time_reads w) - t)
                             @ '' seconds'' @ newline]))
                      \<and> (\<not> debug \<longrightarrow> w' = w)
           | Inl e \<Rightarrow> debug \<and> st = None \<and> stderr w' = stderr w \<and> is_Exception e)"
  using assms
  by (auto simp: debug_write_def time_now_def split: if_splits option.splits)

lemma pickle_load_file_effect:
  assumes "pickle_load_file env f w = (r, w')"
  shows "cwd w' = cwd w \<and> sys_path w' = sys_path w \<and> fs w' = fs w \<and> stdout w' = stdout w
       \<and> stderr w' = stderr w \<and> time_reads w' = time_reads w \<and> logging_level w' = logging_level w
       \<and> trace w' = trace w @ [Ev_pickle_load] \<and> r = pickle_load env w f"
  using assms by (auto simp: pickle_load_file_def)

lemma run_work_trace:
  assumes "run_work env job w = (r, w')"
  shows "trace w' = trace w @ [Ev_work]"
  using assms by (auto simp: run_work_def Let_def split: prod.splits)

lemma load_and_run_cases:
  assumes run: "load_and_run env cwd0 work_dir random_id st debug w = (r, w')"
  shows "(\<exists>job w7. run_work env job w7 = (r, w')
            \<and> cwd w7 = resolve (resolve (cwd w) work_dir) cwd0
            \<and> stdout w7 = stdout w \<and> fs w7 = fs w \<and> sys_path w7 = sys_path w
            \<and> lookup w work_dir = Some Dir
            \<and> (\<exists>c. fs w (resolve (resolve (cwd w) work_dir) (random_id @ ''.job-instance.pickle''))
                     = Some (File c)))
       \<or> (\<exists>e. r = Inl e \<and> stdout w' = stdout w \<and> fs w' = fs w \<and> sys_path w' = sys_path w
            \<and> count_list (trace w') Ev_work = count_list (trace w) Ev_work
            \<and> cwd w' = (if lookup w work_dir = Some Dir then resolve (cwd w) work_dir else cwd w)
            \<and> ((\<forall>c. fs w (resolve (resolve (cwd w) work_dir) (random_id @ ''.job-instance.pickle''))
                     \<noteq> Some (File c)) \<longrightarrow> is_Exception e))"
  using run unfolding load_and_run_def
  by (auto simp: lookup_def dest!: and_then_cases os_chdir_effect open_read_effect
        pickle_load_file_effect debug_write_effect split: sum.splits if_splits)

subsection \<open>How main binds its arguments\<close>

lemma main_try_positionals:
  assumes "args = prog # s # p # j # rest" and "os_path_exists w s"
  shows "main_try env args w =
     do_work_on_compute_node env s j (''--tarball'' \<in> set args)
       (fst (start_debug env (''--debug'' \<in> set args) w)) (''--debug'' \<in> set args)
       ((logging_basicConfig 30 (snd (start_debug env (''--debug'' \<in> set args) w)))
        \<lparr>sys_path := sys_path w @ [p]\<rparr>)"
proof -
  have idx: "list_index args (Suc 0) v = (Inr s, v)" "list_index args 2 v = (Inr p, v)"
    "list_index args 3 v = (Inr j, v)" for v
    using assms(1) by (simp_all add: list_index_def)
  from assms(2) have ex: "lookup w s \<noteq> None"
    by (simp add: os_path_exists_def)
  show ?thesis
    unfolding main_try_def Let_def
    by (simp add: idx and_then_def os_path_exists_def ex case_prod_unfold)
qed

subsection \<open>The working directory\<close>

text \<open>
  C4, as the code has it. The archive is there but is not a tar file: opening it raises,
  and the working directory stays in the staging directory. Nothing restores it: there is
  no \<^verbatim>\<open>finally\<close>.
\<close>

theorem corrupt_archive_leaves_cwd_in_staging_dir:
  "os_path_exists (world_of ''/home'' staged_corrupt) (os_path_join ''/stage'' ''packages.tar'')
   \<and> fst (extract_packages_archive ''/stage'' (world_of ''/home'' staged_corrupt)) =
       Inl (ReadError ''file could not be opened successfully'')
   \<and> cwd (snd (extract_packages_archive ''/stage'' (world_of ''/home'' staged_corrupt))) = ''/stage''
   \<and> cwd (world_of ''/home'' staged_corrupt) = ''/home''"
  by (simp add: runner_defs staging_defs)

text \<open>
  C4, amended. On a staging directory that holds the archive file, the extractor restores
  the working directory when it returns; when it raises (the archive cannot be opened, a
  member cannot be read or written, the way back fails) the working directory is left in
  the staging directory.
\<close>

theorem extractor_cwd:
  assumes "lookup w work_dir = Some Dir"
    and "os_path_exists w (os_path_join work_dir ''packages.tar'')"
    and "normalised (cwd w)"
    and "extract_packages_archive work_dir w = (r, w')"
  shows "case r of Inr u \<Rightarrow> cwd w' = cwd w | Inl e \<Rightarrow> cwd w' = resolve (cwd w) work_dir"
  using extract_packages_archive_cwd [OF assms(4) assms(3)] assms(1,2)
  by (cases r) simp_all

theorem extractor_cwd_witness:
  "lookup (world_of ''/home'' staged_archive) ''/stage'' = Some Dir
   \<and> os_path_exists (world_of ''/home'' staged_archive) (os_path_join ''/stage'' ''packages.tar'')
   \<and> normalised (cwd (world_of ''/home'' staged_archive))
   \<and> fst (extract_packages_archive ''/stage'' (world_of ''/home'' staged_archive)) = Inr ()
   \<and> cwd (snd (extract_packages_archive ''/stage'' (world_of ''/home'' staged_archive))) =
       cwd (world_of ''/home'' staged_archive)"
proof -
  let ?w = "world_of ''/home'' staged_archive"
  have a: "lookup ?w ''/stage'' = Some Dir"
    by (simp add: runner_defs staging_defs)
  have b: "os_path_exists ?w (os_path_join ''/stage'' ''packages.tar'')"
    by (simp add: runner_defs staging_defs)
  have c: "normalised (cwd ?w)"
    by (simp add: normalised_def runner_defs staging_defs)
  have d: "fst (extract_packages_archive ''/stage'' ?w) = Inr ()"
    by (simp add: runner_defs staging_defs)
  have e: "extract_packages_archive ''/stage'' ?w =
      (fst (extract_packages_archive ''/stage'' ?w), snd (extract_packages_archive ''/stage'' ?w))"
    by simp
  from extractor_cwd [OF a b c e] d a b c show ?thesis by simp
qed

text \<open>
  C5, as the code has it. The task file does not unpickle: \<^verbatim>\<open>pickle.load\<close> raises and the
  working directory stays in the staging directory.
\<close>

theorem failed_unpickling_leaves_cwd_in_staging_dir:
  "lookup (world_of ''/home'' staged_bad_blob) ''/stage'' = Some Dir
   \<and> fst (do_work_on_compute_node env0 ''/stage'' ''42'' False None False
          (world_of ''/home'' staged_bad_blob)) =
       Inl (Raised ''UnpicklingError'' True ''invalid load key'')
   \<and> cwd (snd (do_work_on_compute_node env0 ''/stage'' ''42'' False None False
          (world_of ''/home'' staged_bad_blob))) = ''/stage''
   \<and> cwd (world_of ''/home'' staged_bad_blob) = ''/home''"
  by (simp add: runner_defs staging_defs)

lemma normalised_nonempty: "normalised p \<Longrightarrow> p \<noteq> []"
  by (auto simp: normalised_def is_abs_def)

text \<open>
  C5, amended. On an existing staging directory, the directory saved on entry being an
  absolute normalised path: when the task file cannot be opened, the materializer raises
  right after the attempt; when it is opened and does not unpickle, the materializer
  raises with the error of \<^verbatim>\<open>pickle.load\<close>; in both cases the working directory is left in
  the staging directory (no change of directory follows) and the work is not called. When
  the file is opened and unpickles (the saved directory still being there, and a start
  time coming with \<^verbatim>\<open>debug\<close>, as in every call from \<open>main\<close>), the working directory is
  restored to the saved one and the work of the unpickled task is called there.
\<close>

theorem materializer_cwd:
  fixes w :: world and work_dir random_id cwd0 :: string
  defines "d \<equiv> resolve (cwd w) work_dir"
    and "blob \<equiv> resolve (resolve (cwd w) work_dir) (random_id @ ''.job-instance.pickle'')"
    and "w4 \<equiv> snd (open_read (random_id @ ''.job-instance.pickle'') (snd (os_chdir work_dir w)))"
  assumes dir: "lookup w work_dir = Some Dir" and norm: "normalised cwd0"
  shows "((\<forall>c. fs w blob \<noteq> Some (File c)) \<longrightarrow>
            (\<exists>e w'. load_and_run env cwd0 work_dir random_id start_time debug w = (Inl e, w')
               \<and> is_Exception e \<and> cwd w' = d
               \<and> trace w' = trace w @ [Ev_chdir d, Ev_open blob]))
       \<and> (\<forall>c e. fs w blob = Some (File c) \<and> pickle_load env w4 c = Inl e \<longrightarrow>
            (\<exists>w'. load_and_run env cwd0 work_dir random_id start_time debug w = (Inl e, w')
               \<and> cwd w' = d
               \<and> trace w' = trace w @ [Ev_chdir d, Ev_open blob, Ev_pickle_load]))
       \<and> (\<forall>c job. fs w blob = Some (File c) \<and> pickle_load env w4 c = Inr job
               \<and> (debug \<longrightarrow> start_time \<noteq> None) \<and> fs w cwd0 = Some Dir \<longrightarrow>
            (\<exists>w7. load_and_run env cwd0 work_dir random_id start_time debug w = run_work env job w7
               \<and> cwd w7 = cwd0 \<and> fs w7 = fs w \<and> sys_path w7 = sys_path w
               \<and> stdout w7 = stdout w
               \<and> trace w7 = trace w @ [Ev_chdir d, Ev_open blob, Ev_pickle_load, Ev_chdir cwd0]))"
proof -
  let ?name = "random_id @ ''.job-instance.pickle''"
  let ?w3 = "(log_event (Ev_chdir d) w)\<lparr>cwd := d\<rparr>"
  have c1: "os_chdir work_dir w = (Inr (), ?w3)"
    using dir by (simp add: os_chdir_def Let_def d_def)
  have lk: "lookup ?w3 ?name = fs w blob"
    by (simp add: lookup_def blob_def d_def)
  have ev: "resolve (cwd ?w3) ?name = blob"
    by (simp add: blob_def d_def)
  let ?w4 = "log_event (Ev_open blob) ?w3"
  have w4: "w4 = ?w4"
    unfolding w4_def c1
    by (simp add: open_read_def Let_def blob_def d_def split: option.splits node.splits)
  have open_fail: "\<exists>e. open_read ?name ?w3 = (Inl e, ?w4) \<and> is_Exception e"
    if "\<forall>c. fs w blob \<noteq> Some (File c)"
    using that lk ev by (auto simp: open_read_def Let_def split: option.splits node.splits)
  have open_ok: "open_read ?name ?w3 = (Inr c, ?w4)" if "fs w blob = Some (File c)" for c
    using that lk ev by (simp add: open_read_def Let_def)
  have A: "\<exists>e w'. load_and_run env cwd0 work_dir random_id start_time debug w = (Inl e, w')
               \<and> is_Exception e \<and> cwd w' = d \<and> trace w' = trace w @ [Ev_chdir d, Ev_open blob]"
    if "\<forall>c. fs w blob \<noteq> Some (File c)"
  proof -
    from open_fail [OF that] obtain e where "open_read ?name ?w3 = (Inl e, ?w4)" "is_Exception e"
      by blast
    then show ?thesis
      by (simp add: load_and_run_def c1 and_then_def)
  qed
  have B: "\<exists>w'. load_and_run env cwd0 work_dir random_id start_time debug w = (Inl e, w')
               \<and> cwd w' = d \<and> trace w' = trace w @ [Ev_chdir d, Ev_open blob, Ev_pickle_load]"
    if "fs w blob = Some (File c)" "pickle_load env w4 c = Inl e" for c e
    using that(2) open_ok [OF that(1)]
    by (simp add: load_and_run_def c1 and_then_def pickle_load_file_def w4)
  have C: "\<exists>w7. load_and_run env cwd0 work_dir random_id start_time debug w = run_work env job w7
               \<and> cwd w7 = cwd0 \<and> fs w7 = fs w \<and> sys_path w7 = sys_path w
               \<and> stdout w7 = stdout w
               \<and> trace w7 = trace w @ [Ev_chdir d, Ev_open blob, Ev_pickle_load, Ev_chdir cwd0]"
    if blobfile: "fs w blob = Some (File c)" and load: "pickle_load env w4 c = Inr job"
      and st: "debug \<longrightarrow> start_time \<noteq> None" and home: "fs w cwd0 = Some Dir" for c job
  proof -
    let ?w5 = "log_event Ev_pickle_load ?w4"
    obtain w6 where dw: "debug_write env debug ''loaded pickled data'' start_time ?w5 = (Inr (), w6)"
      and w6: "cwd w6 = d" "fs w6 = fs w" "sys_path w6 = sys_path w" "stdout w6 = stdout w"
        "trace w6 = trace w @ [Ev_chdir d, Ev_open blob, Ev_pickle_load]"
      using st by (cases debug) (auto simp: debug_write_def time_now_def)
    from norm home w6 have there: "lookup w6 cwd0 = Some Dir"
      by (simp add: lookup_def resolve_normalised normalised_nonempty)
    let ?w7 = "(log_event (Ev_chdir cwd0) w6)\<lparr>cwd := cwd0\<rparr>"
    from there norm w6 have c5: "os_chdir cwd0 w6 = (Inr (), ?w7)"
      by (simp add: os_chdir_def Let_def resolve_normalised)
    have "load_and_run env cwd0 work_dir random_id start_time debug w = run_work env job ?w7"
      using load open_ok [OF blobfile]
      by (simp add: load_and_run_def c1 and_then_def pickle_load_file_def w4 dw c5)
    with w6 show ?thesis
      by (intro exI [of _ ?w7]) simp
  qed
  from A B C show ?thesis by blast
qed

theorem materializer_cwd_witness:
  "lookup (world_of ''/home'' staged) ''/stage'' = Some Dir
   \<and> lookup (world_of ''/home'' staged_bad_blob) ''/stage'' = Some Dir
   \<and> lookup (world_of ''/home'' staged_no_blob) ''/stage'' = Some Dir
   \<and> normalised ''/home''
   \<and> fs (world_of ''/home'' staged) ''/stage/42.job-instance.pickle'' = Some (File (Bytes ''task''))
   \<and> pickle_load env0
         (snd (open_read (''42'' @ ''.job-instance.pickle'')
                 (snd (os_chdir ''/stage'' (world_of ''/home'' staged)))))
         (Bytes ''task'') = Inr 0
   \<and> fs (world_of ''/home'' staged) ''/home'' = Some Dir
   \<and> (\<exists>w7. load_and_run env0 ''/home'' ''/stage'' ''42'' None False (world_of ''/home'' staged) =
             run_work env0 0 w7
          \<and> cwd w7 = ''/home''
          \<and> trace w7 = [Ev_chdir ''/stage'', Ev_open ''/stage/42.job-instance.pickle'',
                           Ev_pickle_load, Ev_chdir ''/home''])
   \<and> fs (world_of ''/home'' staged_bad_blob) ''/stage/42.job-instance.pickle'' =
         Some (File (Bytes ''garbage''))
   \<and> pickle_load env0
         (snd (open_read (''42'' @ ''.job-instance.pickle'')
                 (snd (os_chdir ''/stage'' (world_of ''/home'' staged_bad_blob)))))
         (Bytes ''garbage'') = Inl (Raised ''UnpicklingError'' True ''invalid load key'')
   \<and> (\<exists>w'. load_and_run env0 ''/home'' ''/stage'' ''42'' None False
                (world_of ''/home'' staged_bad_blob) =
             (Inl (Raised ''UnpicklingError'' True ''invalid load key''), w')
          \<and> cwd w' = ''/stage''
          \<and> trace w' = [Ev_chdir ''/stage'', Ev_open ''/stage/42.job-instance.pickle'',
                           Ev_pickle_load])
   \<and> fs (world_of ''/home'' staged_no_blob) ''/stage/42.job-instance.pickle'' = None
   \<and> (\<exists>e w'. load_and_run env0 ''/home'' ''/stage'' ''42'' None False
                (world_of ''/home'' staged_no_blob) = (Inl e, w')
          \<and> is_Exception e \<and> cwd w' = ''/stage''
          \<and> trace w' = [Ev_chdir ''/stage'', Ev_open ''/stage/42.job-instance.pickle''])"
proof -
  let ?ok = "world_of ''/home'' staged"
  let ?bad = "world_of ''/home'' staged_bad_blob"
  let ?none = "world_of ''/home'' staged_no_blob"
  have dirs: "lookup ?ok ''/stage'' = Some Dir" "lookup ?bad ''/stage'' = Some Dir"
    "lookup ?none ''/stage'' = Some Dir"
    by (simp_all add: runner_defs staging_defs)
  have norm: "normalised ''/home''"
    by (simp add: normalised_def runner_defs)
  have r: "resolve ''/home'' ''/stage'' = ''/stage''"
    "resolve ''/stage'' (''42'' @ ''.job-instance.pickle'') = ''/stage/42.job-instance.pickle''"
    by (simp_all add: runner_defs)
  have cw: "cwd ?ok = ''/home''" "cwd ?bad = ''/home''" "cwd ?none = ''/home''"
    "trace ?ok = []" "trace ?bad = []" "trace ?none = []"
    by (simp_all add: world_of_def)
  have files: "fs ?ok ''/stage/42.job-instance.pickle'' = Some (File (Bytes ''task''))"
    "fs ?ok ''/home'' = Some Dir"
    "fs ?bad ''/stage/42.job-instance.pickle'' = Some (File (Bytes ''garbage''))"
    "fs ?none ''/stage/42.job-instance.pickle'' = None"
    by (simp_all add: staging_defs)
  have loads: "pickle_load env0 v (Bytes ''task'') = Inr 0"
    "pickle_load env0 v (Bytes ''garbage'') = Inl (Raised ''UnpicklingError'' True ''invalid load key'')"
    for v
    by (simp_all add: env0_def)
  note ok = materializer_cwd [where env = env0 and random_id = "''42''" and start_time = None
      and debug = False, OF dirs(1) norm, unfolded cw r]
  note bad = materializer_cwd [where env = env0 and random_id = "''42''" and start_time = None
      and debug = False, OF dirs(2) norm, unfolded cw r]
  note none = materializer_cwd [where env = env0 and random_id = "''42''" and start_time = None
      and debug = False, OF dirs(3) norm, unfolded cw r]
  from ok [THEN conjunct2, THEN conjunct2, rule_format, of "Bytes ''task''" 0] files loads
  have one: "\<exists>w7. load_and_run env0 ''/home'' ''/stage'' ''42'' None False ?ok = run_work env0 0 w7
          \<and> cwd w7 = ''/home''
          \<and> trace w7 = [Ev_chdir ''/stage'', Ev_open ''/stage/42.job-instance.pickle'',
                           Ev_pickle_load, Ev_chdir ''/home'']"
    by auto
  from bad [THEN conjunct2, THEN conjunct1, rule_format, of "Bytes ''garbage''"
      "Raised ''UnpicklingError'' True ''invalid load key''"] files loads
  have two: "\<exists>w'. load_and_run env0 ''/home'' ''/stage'' ''42'' None False ?bad =
             (Inl (Raised ''UnpicklingError'' True ''invalid load key''), w')
          \<and> cwd w' = ''/stage''
          \<and> trace w' = [Ev_chdir ''/stage'', Ev_open ''/stage/42.job-instance.pickle'',
                           Ev_pickle_load]"
    by auto
  from none [THEN conjunct1] files
  have three: "\<exists>e w'. load_and_run env0 ''/home'' ''/stage'' ''42'' None False ?none = (Inl e, w')
          \<and> is_Exception e \<and> cwd w' = ''/stage''
          \<and> trace w' = [Ev_chdir ''/stage'', Ev_open ''/stage/42.job-instance.pickle'']"
    by auto
  from dirs norm files loads one two three show ?thesis
    by (intro conjI) simp_all
qed

subsection \<open>The handler of main\<close>

lemma run_work_stdout:
  assumes "run_work env job w = (r, w')"
    and "\<forall>job v. stdout (snd (job_work env job v)) = stdout v"
  shows "stdout w' = stdout w"
proof -
  obtain r2 w2 where jw: "job_work env job (log_event Ev_work w) = (r2, w2)"
    by (cases "job_work env job (log_event Ev_work w)")
  with assms(1) have "stdout w' = stdout w2"
    by (auto simp: run_work_def Let_def)
  moreover from assms(2) have "stdout (snd (job_work env job (log_event Ev_work w))) = stdout (log_event Ev_work w)"
    by blast
  ultimately show ?thesis using jw by simp
qed

lemma do_work_on_compute_node_stdout:
  assumes run: "do_work_on_compute_node env s j tb st dbg v = (r, w')"
    and quiet: "\<forall>job v. stdout (snd (job_work env job v)) = stdout v"
  shows "stdout w' = stdout v"
proof -
  from run have run1:
    "and_then (if tb then extract_packages_archive s v else (Inr (), v)) (\<lambda>u w1.
     and_then (debug_write env dbg ''extracted tar'' st w1) (\<lambda>u w2.
     load_and_run env (cwd v) s j st dbg w2)) = (r, w')"
    by (simp add: do_work_on_compute_node_def os_getcwd_def)
  have ex: "stdout w1 = stdout v"
    if "(if tb then extract_packages_archive s v else (Inr (), v)) = (r1, w1)" for r1 w1
    using that extract_packages_archive_frame [of s v r1 w1] by (cases tb) auto
  from and_then_cases [OF run1] show ?thesis
  proof (elim disjE exE conjE)
    fix e assume "(if tb then extract_packages_archive s v else (Inr (), v)) = (Inl e, w')"
    then show ?thesis by (rule ex)
  next
    fix u w1
    assume c1: "(if tb then extract_packages_archive s v else (Inr (), v)) = (Inr u, w1)"
      and run2: "and_then (debug_write env dbg ''extracted tar'' st w1) (\<lambda>u w2.
         load_and_run env (cwd v) s j st dbg w2) = (r, w')"
    note e1 = ex [OF c1]
    from and_then_cases [OF run2] show ?thesis
    proof (elim disjE exE conjE)
      fix e assume "debug_write env dbg ''extracted tar'' st w1 = (Inl e, w')"
      from debug_write_effect [OF this] e1 show ?thesis by simp
    next
      fix u2 w2
      assume c2: "debug_write env dbg ''extracted tar'' st w1 = (Inr u2, w2)"
        and c3: "load_and_run env (cwd v) s j st dbg w2 = (r, w')"
      from debug_write_effect [OF c2] e1 have e2: "stdout w2 = stdout v" by simp
      from load_and_run_cases [OF c3] e2 show ?thesis
        by (auto dest: run_work_stdout [OF _ quiet])
    qed
  qed
qed

lemma main_try_stdout:
  assumes run: "main_try env args w = (r, w1)"
    and quiet: "\<forall>job v. stdout (snd (job_work env job v)) = stdout v"
  shows "stdout w1 = stdout w"
  using run unfolding main_try_def Let_def
  by (auto simp: list_index_def and_then_def case_prod_unfold split: if_splits
      dest!: do_work_on_compute_node_stdout [OF _ quiet])

text \<open>
  C1, as the code has it. A task whose work raises \<^verbatim>\<open>SystemExit\<close> ends \<open>main\<close> with that
  exception, and nothing is printed: the handler catches \<^verbatim>\<open>Exception\<close> only.
\<close>

theorem system_exit_is_not_printed:
  "fst (main env_exit [''sge_runner.py'', ''/stage'', ''/proj'', ''42'']
          (world_of ''/home'' staged)) = Inl (Raised ''SystemExit'' False ''1'')
   \<and> stdout (snd (main env_exit [''sge_runner.py'', ''/stage'', ''/proj'', ''42'']
        (world_of ''/home'' staged))) = []"
  by (simp add: runner_defs staging_defs)

text \<open>
  C1, amended. Let the body of the \<^verbatim>\<open>try\<close> block end with result \<open>r\<close> in world \<open>w1\<close>. Then
  \<open>main\<close> ends with the same result (an exception is raised again, unchanged); it prints
  \<^verbatim>\<open>str(e)\<close> once, after everything else, exactly when \<open>r\<close> is an exception \<open>e\<close> deriving
  from \<^verbatim>\<open>Exception\<close>, and otherwise leaves the world as the body left it. The stages
  themselves print nothing: if the task's work writes nothing to standard output, the
  body leaves standard output as it found it.
\<close>

theorem main_prints_an_Exception_once:
  assumes "main_try env args w = (r, w1)"
  shows "main env args w =
           (r, case r of Inl e \<Rightarrow> if is_Exception e then print_stdout (str_exn e) w1 else w1
                       | Inr u \<Rightarrow> w1)
       \<and> ((\<forall>job v. stdout (snd (job_work env job v)) = stdout v) \<longrightarrow> stdout w1 = stdout w)"
  using assms main_try_stdout [OF assms]
  by (auto simp: main_def split: sum.splits)

theorem main_prints_an_Exception_once_witness:
  "main_try env0 [''sge_runner.py'', ''/stage'', ''/proj'', ''42''] (world_of ''/home'' staged_no_blob) =
     (Inl (EnvironmentError ENOENT ''42.job-instance.pickle''),
      snd (main_try env0 [''sge_runner.py'', ''/stage'', ''/proj'', ''42'']
             (world_of ''/home'' staged_no_blob)))
   \<and> main env0 [''sge_runner.py'', ''/stage'', ''/proj'', ''42''] (world_of ''/home'' staged_no_blob) =
     (Inl (EnvironmentError ENOENT ''42.job-instance.pickle''),
      print_stdout (str_exn (EnvironmentError ENOENT ''42.job-instance.pickle''))
        (snd (main_try env0 [''sge_runner.py'', ''/stage'', ''/proj'', ''42'']
             (world_of ''/home'' staged_no_blob))))
   \<and> (\<forall>job v. stdout (snd (job_work env0 job v)) = stdout v)
   \<and> stdout (snd (main_try env0 [''sge_runner.py'', ''/stage'', ''/proj'', ''42'']
             (world_of ''/home'' staged_no_blob))) = stdout (world_of ''/home'' staged_no_blob)"
proof -
  let ?args = "[''sge_runner.py'', ''/stage'', ''/proj'', ''42'']"
  let ?w = "world_of ''/home'' staged_no_blob"
  have a: "main_try env0 ?args ?w =
      (Inl (EnvironmentError ENOENT ''42.job-instance.pickle''), snd (main_try env0 ?args ?w))"
    by (simp add: runner_defs staging_defs)
  have q: "\<forall>job v. stdout (snd (job_work env0 job v)) = stdout v"
    by (simp add: env0_def)
  from main_prints_an_Exception_once [OF a] a q show ?thesis by simp
qed

subsection \<open>The precondition error\<close>

text \<open>
  C9, as the code has it. The staging directory \<^verbatim>\<open>/missing\<close> does not exist; the error is
  the assertion's fixed message, and the path is not part of it.
\<close>

theorem assertion_message_omits_the_path:
  "\<not> os_path_exists (world_of ''/home'' staged) ''/missing''
   \<and> fst (main env0 [''sge_runner.py'', ''/missing'', ''/proj'', ''42'']
             (world_of ''/home'' staged)) =
       Inl (AssertionError ''First argument to sge_runner.py must be a directory that exists'')
   \<and> \<not> sublist ''/missing''
         (str_exn (AssertionError
            ''First argument to sge_runner.py must be a directory that exists''))"
proof -
  have "\<not> sublist ''/missing''
          ''First argument to sge_runner.py must be a directory that exists''"
  proof
    assume "sublist ''/missing''
              ''First argument to sge_runner.py must be a directory that exists''"
    then have "set ''/missing'' \<subseteq>
                 set ''First argument to sge_runner.py must be a directory that exists''"
      by (rule set_mono_sublist)
    then show False by simp
  qed
  then show ?thesis
    by (simp add: runner_defs staging_defs)
qed

text \<open>
  C9, amended. When the path given as first argument does not exist, the error \<open>main\<close>
  fails with renders as the fixed text of the assertion, whatever the path is, and that
  text (with a newline) is what is printed to standard output.
\<close>

theorem missing_staging_dir_message:
  assumes "1 < length args" and "\<not> os_path_exists w (args ! 1)"
  shows "\<exists>e w'. main env args w = (Inl e, w')
      \<and> str_exn e = ''First argument to sge_runner.py must be a directory that exists''
      \<and> stdout w' = stdout w @
           [''First argument to sge_runner.py must be a directory that exists'' @ newline]"
  using assms
  by (simp add: main_def main_try_def list_index_def and_then_def os_path_exists_def Let_def
      case_prod_unfold)

theorem missing_staging_dir_message_witness:
  "1 < length [''sge_runner.py'', ''/missing'', ''/proj'', ''42'']
   \<and> \<not> os_path_exists (world_of ''/home'' staged)
         ([''sge_runner.py'', ''/missing'', ''/proj'', ''42''] ! 1)
   \<and> (\<exists>e w'. main env0 [''sge_runner.py'', ''/missing'', ''/proj'', ''42'']
                (world_of ''/home'' staged) = (Inl e, w')
      \<and> str_exn e = ''First argument to sge_runner.py must be a directory that exists''
      \<and> stdout w' = stdout (world_of ''/home'' staged) @
           [''First argument to sge_runner.py must be a directory that exists'' @ newline])"
proof -
  have len: "1 < length [''sge_runner.py'', ''/missing'', ''/proj'', ''42'']"
    by simp
  have missing: "\<not> os_path_exists (world_of ''/home'' staged)
                   ([''sge_runner.py'', ''/missing'', ''/proj'', ''42''] ! 1)"
    by (simp add: runner_defs staging_defs)
  from missing_staging_dir_message [OF len missing, of env0] len missing
  show ?thesis by blast
qed

subsection \<open>Flags and positional arguments\<close>

text \<open>
  C2, as the code has it. The vector \<^verbatim>\<open>sge_runner.py --debug /stage /proj 42\<close> matches the
  contract and the staging directory \<^verbatim>\<open>/stage\<close> exists with its task; \<open>main\<close> takes
  \<^verbatim>\<open>--debug\<close> for the staging directory and fails the precondition check. With the flag
  after the three positional arguments the same job runs.
\<close>

theorem flag_before_the_positionals:
  "matches_contract [''sge_runner.py'', ''--debug'', ''/stage'', ''/proj'', ''42'']
     ''/stage'' ''/proj'' ''42''
   \<and> os_path_exists (world_of ''/home'' staged) ''/stage''
   \<and> fst (main env0 [''sge_runner.py'', ''--debug'', ''/stage'', ''/proj'', ''42'']
        (world_of ''/home'' staged)) =
      Inl (AssertionError ''First argument to sge_runner.py must be a directory that exists'')
   \<and> fst (main env0 [''sge_runner.py'', ''/stage'', ''/proj'', ''42'', ''--debug'']
        (world_of ''/home'' staged)) = Inr ()"
  by (simp add: runner_defs staging_defs is_flag_def)

text \<open>
  C2, amended. When the staging directory, the project directory and the job identifier
  are the arguments at positions 1, 2 and 3, and the staging directory exists, \<open>main\<close>
  calls \<^verbatim>\<open>_do_work_on_compute_node\<close> on this staging directory and job identifier, with the
  project directory appended to \<^verbatim>\<open>sys.path\<close>; the two flags are read as given when they
  occur anywhere in the vector, so they may follow the positional arguments in any order.
  (The start time and the world handed over are those left by lines 117 to 124.)
\<close>

theorem positionals_at_one_two_three:
  assumes "args = prog # s # p # j # rest" and "os_path_exists w s"
  shows "main_try env args w =
     do_work_on_compute_node env s j (''--tarball'' \<in> set args)
       (fst (start_debug env (''--debug'' \<in> set args) w)) (''--debug'' \<in> set args)
       ((logging_basicConfig 30 (snd (start_debug env (''--debug'' \<in> set args) w)))
        \<lparr>sys_path := sys_path w @ [p]\<rparr>)"
  using assms by (rule main_try_positionals)

theorem positionals_at_one_two_three_witness:
  "[''sge_runner.py'', ''/stage'', ''/proj'', ''42'', ''--tarball'', ''--debug''] =
     ''sge_runner.py'' # ''/stage'' # ''/proj'' # ''42'' # [''--tarball'', ''--debug'']
   \<and> os_path_exists (world_of ''/home'' staged) ''/stage''
   \<and> main_try env0 [''sge_runner.py'', ''/stage'', ''/proj'', ''42'', ''--tarball'', ''--debug'']
        (world_of ''/home'' staged) =
      do_work_on_compute_node env0 ''/stage'' ''42'' True (Some 0) True
        ((logging_basicConfig 30 (snd (start_debug env0 True (world_of ''/home'' staged))))
         \<lparr>sys_path := [''/proj'']\<rparr>)"
proof -
  let ?args = "[''sge_runner.py'', ''/stage'', ''/proj'', ''42'', ''--tarball'', ''--debug'']"
  have a: "?args = ''sge_runner.py'' # ''/stage'' # ''/proj'' # ''42'' # [''--tarball'', ''--debug'']"
    by simp
  have b: "os_path_exists (world_of ''/home'' staged) ''/stage''"
    by (simp add: runner_defs staging_defs)
  from positionals_at_one_two_three [OF a b, of env0] b show ?thesis
    by (simp add: world_of_def env0_def)
qed

subsection \<open>Reaching the materializer\<close>

lemma load_and_run_trace:
  assumes run: "load_and_run env cwd0 s j st dbg w = (r, w')"
    and dir: "lookup w s = Some Dir"
  shows "\<exists>evs. trace w' = trace w @ Ev_chdir (resolve (cwd w) s)
            # Ev_open (resolve (resolve (cwd w) s) (j @ ''.job-instance.pickle'')) # evs"
  using run dir unfolding load_and_run_def
  by (auto dest!: and_then_cases os_chdir_effect open_read_effect
        pickle_load_file_effect debug_write_effect run_work_trace split: sum.splits)

lemma main_trace:
  "trace (snd (main env args w)) = trace (snd (main_try env args w))"
  by (cases "main_try env args w") (auto simp: main_def split: sum.splits)

text \<open>
  With the three positional arguments in place, an existing staging directory and no
  archive to unpack (no \<^verbatim>\<open>--tarball\<close>, or no \<^verbatim>\<open>packages.tar\<close>), \<open>main\<close> reaches the
  materializer in a world that differs from the initial one in the search path, the
  logging level and the diagnostic lines only.
\<close>

lemma main_try_without_archive:
  assumes args: "args = prog # s # p # j # rest"
    and ex: "os_path_exists w s"
    and skip: "''--tarball'' \<in> set args \<longrightarrow> \<not> os_path_exists w (os_path_join s ''packages.tar'')"
  shows "\<exists>w2. main_try env args w =
           load_and_run env (cwd w) s j
             (fst (start_debug env (''--debug'' \<in> set args) w)) (''--debug'' \<in> set args) w2
       \<and> cwd w2 = cwd w \<and> fs w2 = fs w \<and> trace w2 = trace w \<and> stdout w2 = stdout w
       \<and> sys_path w2 = sys_path w @ [p]
       \<and> stderr w2 = stderr w @
           (if ''--debug'' \<in> set args
            then [''starting at '' @ ctime env (time_at env (Suc (time_reads w))) @ newline,
                  ''extracted tar after ''
                    @ format_float env (time_at env (time_reads w + 2) - time_at env (time_reads w))
                    @ '' seconds'' @ newline]
            else [])"
proof -
  let ?dbg = "''--debug'' \<in> set args"
  let ?v = "(logging_basicConfig 30 (snd (start_debug env ?dbg w)))
        \<lparr>sys_path := sys_path w @ [p]\<rparr>"
  have noop: "(if ''--tarball'' \<in> set args then extract_packages_archive s ?v else (Inr (), ?v))
      = (Inr (), ?v)"
    using skip by (simp add: extract_packages_archive_def os_path_exists_def)
  let ?w2 = "snd (debug_write env ?dbg ''extracted tar'' (fst (start_debug env ?dbg w)) ?v)"
  show ?thesis
    unfolding main_try_positionals [OF args ex]
    by (rule exI [of _ ?w2])
      (simp add: do_work_on_compute_node_def os_getcwd_def noop and_then_def debug_write_def
        time_now_def)
qed

subsection \<open>The diagnostic lines\<close>

text \<open>
  C10, as the code has it. With \<^verbatim>\<open>--debug\<close> and without \<^verbatim>\<open>--tarball\<close>, but a staging
  directory that does not exist, the only line written to the error stream is the
  starting line: the run ends at the precondition check, before the line about the
  archive.
\<close>

theorem debug_line_is_not_written_after_a_failed_precondition:
  "''--debug'' \<in> set [''sge_runner.py'', ''/missing'', ''/proj'', ''42'', ''--debug'']
   \<and> ''--tarball'' \<notin> set [''sge_runner.py'', ''/missing'', ''/proj'', ''42'', ''--debug'']
   \<and> stderr (snd (main env0 [''sge_runner.py'', ''/missing'', ''/proj'', ''42'', ''--debug'']
        (world_of ''/home'' staged))) = [''starting at '' @ ctime env0 0 @ newline]
   \<and> ''extracted tar after '' @ format_float env0 (time_at env0 2 - time_at env0 0)
         @ '' seconds'' @ newline
       \<notin> set (stderr (snd (main env0
             [''sge_runner.py'', ''/missing'', ''/proj'', ''42'', ''--debug'']
             (world_of ''/home'' staged))))"
  by (simp add: runner_defs staging_defs)

text \<open>
  C10, amended. For every invocation with the three positional arguments in place and an
  existing staging directory, with \<^verbatim>\<open>--debug\<close> given and \<^verbatim>\<open>--tarball\<close> not given, the line
  \<^verbatim>\<open>extracted tar after <seconds> seconds\<close> is written to the error stream, after the
  starting line, although no archive was opened or extracted (the trace and the files are
  untouched); the run goes on with the materializer from there.
\<close>

theorem debug_line_without_tarball:
  assumes "args = prog # s # p # j # rest" and "os_path_exists w s"
    and "''--debug'' \<in> set args" and "''--tarball'' \<notin> set args"
  shows "\<exists>w2. main_try env args w =
           load_and_run env (cwd w) s j (Some (time_at env (time_reads w))) True w2
       \<and> stderr w2 = stderr w @
            [''starting at '' @ ctime env (time_at env (Suc (time_reads w))) @ newline,
             ''extracted tar after ''
               @ format_float env (time_at env (time_reads w + 2) - time_at env (time_reads w))
               @ '' seconds'' @ newline]
       \<and> trace w2 = trace w \<and> fs w2 = fs w \<and> cwd w2 = cwd w"
  using main_try_without_archive [OF assms(1,2), of env] assms(3,4) by auto

theorem debug_line_without_tarball_witness:
  "[''sge_runner.py'', ''/stage'', ''/proj'', ''42'', ''--debug''] =
      ''sge_runner.py'' # ''/stage'' # ''/proj'' # ''42'' # [''--debug'']
   \<and> os_path_exists (world_of ''/home'' staged) ''/stage''
   \<and> ''--debug'' \<in> set [''sge_runner.py'', ''/stage'', ''/proj'', ''42'', ''--debug'']
   \<and> ''--tarball'' \<notin> set [''sge_runner.py'', ''/stage'', ''/proj'', ''42'', ''--debug'']
   \<and> (\<exists>w2. main_try env0 [''sge_runner.py'', ''/stage'', ''/proj'', ''42'', ''--debug'']
               (world_of ''/home'' staged) =
             load_and_run env0 (cwd (world_of ''/home'' staged)) ''/stage'' ''42''
               (Some (time_at env0 (time_reads (world_of ''/home'' staged)))) True w2
       \<and> stderr w2 = stderr (world_of ''/home'' staged) @
            [''starting at ''
               @ ctime env0 (time_at env0 (Suc (time_reads (world_of ''/home'' staged)))) @ newline,
             ''extracted tar after ''
               @ format_float env0 (time_at env0 (time_reads (world_of ''/home'' staged) + 2)
                                     - time_at env0 (time_reads (world_of ''/home'' staged)))
               @ '' seconds'' @ newline]
       \<and> trace w2 = trace (world_of ''/home'' staged)
       \<and> fs w2 = fs (world_of ''/home'' staged)
       \<and> cwd w2 = cwd (world_of ''/home'' staged))"
proof -
  let ?args = "[''sge_runner.py'', ''/stage'', ''/proj'', ''42'', ''--debug'']"
  have a: "?args = ''sge_runner.py'' # ''/stage'' # ''/proj'' # ''42'' # [''--debug'']"
    by simp
  have b: "os_path_exists (world_of ''/home'' staged) ''/stage''"
    by (simp add: runner_defs staging_defs)
  have c: "''--debug'' \<in> set ?args" by simp
  have d: "''--tarball'' \<notin> set ?args" by simp
  from debug_line_without_tarball [OF a b c d, of env0] b c d show ?thesis
    by blast
qed

subsection \<open>An archive that is not there\<close>

text \<open>
  C6. With \<^verbatim>\<open>--tarball\<close> given, the three positional arguments in place, an existing
  staging directory and no \<^verbatim>\<open>packages.tar\<close> in it: the extractor returns without an error
  and leaves the world it is given exactly as it was (working directory and search path
  included); \<open>main\<close> goes on with the materializer, in a world where only the project
  directory has been added to the search path; and the materializer's change of
  directory and its opening of the task file are the first events of the run.
\<close>

theorem absent_archive_is_skipped:
  assumes "args = prog # s # p # j # rest" and "''--tarball'' \<in> set args"
    and "lookup w s = Some Dir"
    and "\<not> os_path_exists w (os_path_join s ''packages.tar'')"
  shows "(\<forall>v. fs v = fs w \<and> cwd v = cwd w \<longrightarrow> extract_packages_archive s v = (Inr (), v))
       \<and> (\<exists>w2. main_try env args w =
              load_and_run env (cwd w) s j
                (fst (start_debug env (''--debug'' \<in> set args) w))
                (''--debug'' \<in> set args) w2
            \<and> cwd w2 = cwd w \<and> fs w2 = fs w \<and> trace w2 = trace w
            \<and> sys_path w2 = sys_path w @ [p])
       \<and> (\<exists>evs. trace (snd (main env args w)) =
              trace w @ Ev_chdir (resolve (cwd w) s)
                # Ev_open (resolve (resolve (cwd w) s) (j @ ''.job-instance.pickle'')) # evs)"
proof -
  from assms(3) have ex: "os_path_exists w s"
    by (simp add: os_path_exists_def)
  have noop: "extract_packages_archive s v = (Inr (), v)" if "fs v = fs w" "cwd v = cwd w" for v
    using assms(4) lookup_cong [OF that]
    by (simp add: extract_packages_archive_def os_path_exists_def)
  from main_try_without_archive [OF assms(1) ex, of env] assms(4)
  obtain w2 where w2: "main_try env args w =
      load_and_run env (cwd w) s j
        (fst (start_debug env (''--debug'' \<in> set args) w)) (''--debug'' \<in> set args) w2"
      "cwd w2 = cwd w" "fs w2 = fs w" "trace w2 = trace w" "sys_path w2 = sys_path w @ [p]"
    by auto
  from w2(2,3) assms(3) have dir: "lookup w2 s = Some Dir"
    by (simp add: lookup_cong [of w2 w])
  obtain r w' where run: "load_and_run env (cwd w) s j
        (fst (start_debug env (''--debug'' \<in> set args) w)) (''--debug'' \<in> set args) w2
      = (r, w')"
    by (cases "load_and_run env (cwd w) s j
        (fst (start_debug env (''--debug'' \<in> set args) w)) (''--debug'' \<in> set args) w2")
  from load_and_run_trace [OF run dir] w2(1,2,4) run
  have "\<exists>evs. trace (snd (main env args w)) =
              trace w @ Ev_chdir (resolve (cwd w) s)
                # Ev_open (resolve (resolve (cwd w) s) (j @ ''.job-instance.pickle'')) # evs"
    by (simp add: main_trace)
  with noop w2 show ?thesis by blast
qed

theorem absent_archive_is_skipped_witness:
  "[''sge_runner.py'', ''/stage'', ''/proj'', ''42'', ''--tarball''] =
      ''sge_runner.py'' # ''/stage'' # ''/proj'' # ''42'' # [''--tarball'']
   \<and> ''--tarball'' \<in> set [''sge_runner.py'', ''/stage'', ''/proj'', ''42'', ''--tarball'']
   \<and> lookup (world_of ''/home'' staged) ''/stage'' = Some Dir
   \<and> \<not> os_path_exists (world_of ''/home'' staged) (os_path_join ''/stage'' ''packages.tar'')
   \<and> extract_packages_archive ''/stage'' (world_of ''/home'' staged) =
        (Inr (), world_of ''/home'' staged)
   \<and> (\<exists>evs. trace (snd (main env0 [''sge_runner.py'', ''/stage'', ''/proj'', ''42'', ''--tarball'']
                   (world_of ''/home'' staged))) =
              trace (world_of ''/home'' staged) @ Ev_chdir ''/stage''
                # Ev_open ''/stage/42.job-instance.pickle'' # evs)"
proof -
  let ?args = "[''sge_runner.py'', ''/stage'', ''/proj'', ''42'', ''--tarball'']"
  let ?w = "world_of ''/home'' staged"
  have a: "?args = ''sge_runner.py'' # ''/stage'' # ''/proj'' # ''42'' # [''--tarball'']"
    by simp
  have b: "''--tarball'' \<in> set ?args" by simp
  have c: "lookup ?w ''/stage'' = Some Dir"
    by (simp add: runner_defs staging_defs)
  have d: "\<not> os_path_exists ?w (os_path_join ''/stage'' ''packages.tar'')"
    by (simp add: runner_defs staging_defs)
  have r1: "resolve (cwd ?w) ''/stage'' = ''/stage''"
    by (simp add: runner_defs staging_defs)
  have r2: "resolve ''/stage'' (''42'' @ ''.job-instance.pickle'') = ''/stage/42.job-instance.pickle''"
    by (simp add: runner_defs)
  from absent_archive_is_skipped [OF a b c d, of env0] b c d r1 r2 show ?thesis
    by auto
qed

subsection \<open>A task file that is not there\<close>

lemma extract_packages_archive_untouched:
  assumes run0: "extract_packages_archive work_dir w = (r, w')"
    and miss: "\<forall>ms n c.
        lookup (w\<lparr>cwd := resolve (cwd w) work_dir\<rparr>) (os_path_join work_dir ''packages.tar'')
          = Some (File (Tar ms))
        \<longrightarrow> Member n c \<in> set ms \<longrightarrow> resolve (resolve (cwd w) work_dir) n \<noteq> q"
  shows "fs w' q = fs w q"
proof (cases "os_path_exists w (os_path_join work_dir ''packages.tar'')")
  case False
  with run0 show ?thesis by (auto simp: extract_packages_archive_def)
next
  case True
  let ?pkg = "os_path_join work_dir ''packages.tar''"
  from True run0 have run:
    "and_then (os_chdir work_dir w) (\<lambda>u w1.
     and_then (tarfile_open ?pkg w1) (\<lambda>tar w2.
     and_then (extract_members tar w2) (\<lambda>u w3.
     os_chdir (os_path_abspath w ''.'') (sys_path_insert_empty w3)))) = (r, w')"
    by (simp add: extract_packages_archive_def Let_def)
  from and_then_cases [OF run] show ?thesis
  proof (elim disjE exE conjE)
    fix e assume "os_chdir work_dir w = (Inl e, w')"
    from os_chdir_effect [OF this] show ?thesis by simp
  next
    fix u w1
    assume c1: "os_chdir work_dir w = (Inr u, w1)"
      and run2: "and_then (tarfile_open ?pkg w1) (\<lambda>tar w2.
         and_then (extract_members tar w2) (\<lambda>u w3.
         os_chdir (os_path_abspath w ''.'') (sys_path_insert_empty w3))) = (r, w')"
    from os_chdir_effect [OF c1]
    have e1: "fs w1 = fs w" "cwd w1 = resolve (cwd w) work_dir" by simp_all
    from and_then_cases [OF run2] show ?thesis
    proof (elim disjE exE conjE)
      fix e assume "tarfile_open ?pkg w1 = (Inl e, w')"
      from tarfile_open_effect [OF this] e1 show ?thesis by simp
    next
      fix ms w2
      assume c2: "tarfile_open ?pkg w1 = (Inr ms, w2)"
        and run3: "and_then (extract_members ms w2) (\<lambda>u w3.
           os_chdir (os_path_abspath w ''.'') (sys_path_insert_empty w3)) = (r, w')"
      from tarfile_open_effect [OF c2]
      have e2: "fs w2 = fs w1" "cwd w2 = cwd w1" "lookup w1 ?pkg = Some (File (Tar ms))"
        by simp_all
      from e1 have "lookup (w\<lparr>cwd := resolve (cwd w) work_dir\<rparr>) ?pkg = lookup w1 ?pkg"
        by (simp add: lookup_def)
      with e2(3) miss e1(2) e2(2)
      have away: "\<forall>n c. Member n c \<in> set ms \<longrightarrow> resolve (cwd w2) n \<noteq> q"
        by simp
      from and_then_cases [OF run3] show ?thesis
      proof (elim disjE exE conjE)
        fix e assume "extract_members ms w2 = (Inl e, w')"
        from extract_members_untouched [OF this away] e1 e2 show ?thesis by simp
      next
        fix u3 w3
        assume c3: "extract_members ms w2 = (Inr u3, w3)"
          and c4: "os_chdir (os_path_abspath w ''.'') (sys_path_insert_empty w3) = (r, w')"
        from extract_members_untouched [OF c3 away] os_chdir_effect [OF c4] e1 e2
        show ?thesis by simp
      qed
    qed
  qed
qed

lemma do_work_on_compute_node_without_blob:
  assumes run: "do_work_on_compute_node env s j tb st dbg v = (r, w')"
    and dir: "lookup v s = Some Dir"
    and norm: "normalised (cwd v)"
    and absent: "fs v (resolve (resolve (cwd v) s) (j @ ''.job-instance.pickle'')) = None"
    and miss: "tb \<longrightarrow> (\<forall>ms n c.
        lookup (v\<lparr>cwd := resolve (cwd v) s\<rparr>) (os_path_join s ''packages.tar'')
          = Some (File (Tar ms))
        \<longrightarrow> Member n c \<in> set ms
        \<longrightarrow> resolve (resolve (cwd v) s) n
              \<noteq> resolve (resolve (cwd v) s) (j @ ''.job-instance.pickle''))"
  shows "\<exists>e. r = Inl e \<and> is_Exception e \<and> stdout w' = stdout v
       \<and> count_list (trace w') Ev_work = count_list (trace v) Ev_work"
proof -
  let ?blob = "resolve (resolve (cwd v) s) (j @ ''.job-instance.pickle'')"
  let ?ex = "if tb then extract_packages_archive s v else (Inr (), v)"
  from run have run1:
    "and_then ?ex (\<lambda>u w1.
     and_then (debug_write env dbg ''extracted tar'' st w1) (\<lambda>u w2.
     load_and_run env (cwd v) s j st dbg w2)) = (r, w')"
    by (simp add: do_work_on_compute_node_def os_getcwd_def)
  have ex: "stdout w1 = stdout v \<and> count_list (trace w1) Ev_work = count_list (trace v) Ev_work
      \<and> (\<forall>e. r1 = Inl e \<longrightarrow> is_Exception e)
      \<and> (r1 = Inr () \<longrightarrow> cwd w1 = cwd v \<and> fs w1 ?blob = None \<and> lookup w1 s = Some Dir)"
    if step: "?ex = (r1, w1)" for r1 w1
  proof (cases tb)
    case False
    with step absent dir show ?thesis by auto
  next
    case True
    with step have e: "extract_packages_archive s v = (r1, w1)" by simp
    note fr = extract_packages_archive_frame [OF e]
    from extract_packages_archive_cwd [OF e norm] have cw: "r1 = Inr () \<longrightarrow> cwd w1 = cwd v"
      by simp
    from True miss have "fs w1 ?blob = fs v ?blob"
      by (intro extract_packages_archive_untouched [OF e]) blast
    with absent have bl: "fs w1 ?blob = None" by simp
    from dir have "s \<noteq> []" "fs v (resolve (cwd v) s) = Some Dir"
      by (auto simp: lookup_def split: if_splits)
    with fr cw have "r1 = Inr () \<longrightarrow> lookup w1 s = Some Dir"
      by (simp add: lookup_def)
    with fr cw bl show ?thesis by simp
  qed
  from and_then_cases [OF run1] show ?thesis
  proof (elim disjE exE conjE)
    fix e assume "?ex = (Inl e, w')" "r = Inl e"
    with ex [of "Inl e" w'] show ?thesis by simp
  next
    fix u w1
    assume c1: "?ex = (Inr u, w1)"
      and run2: "and_then (debug_write env dbg ''extracted tar'' st w1) (\<lambda>u w2.
         load_and_run env (cwd v) s j st dbg w2) = (r, w')"
    from ex [OF c1] have e1: "stdout w1 = stdout v"
      "count_list (trace w1) Ev_work = count_list (trace v) Ev_work"
      "cwd w1 = cwd v" "fs w1 ?blob = None" "lookup w1 s = Some Dir"
      by simp_all
    from and_then_cases [OF run2] show ?thesis
    proof (elim disjE exE conjE)
      fix e assume d: "debug_write env dbg ''extracted tar'' st w1 = (Inl e, w')" "r = Inl e"
      from debug_write_effect [OF d(1)] d(2) e1 show ?thesis by simp
    next
      fix u2 w2
      assume c2: "debug_write env dbg ''extracted tar'' st w1 = (Inr u2, w2)"
        and c3: "load_and_run env (cwd v) s j st dbg w2 = (r, w')"
      from debug_write_effect [OF c2] e1
      have e2: "stdout w2 = stdout v" "trace w2 = trace w1" "cwd w2 = cwd v" "fs w2 = fs w1"
        by simp_all
      from load_and_run_cases [OF c3] e1 e2 show ?thesis
        by auto
    qed
  qed
qed

text \<open>
  C8, as the code has it. The staging directory exists and holds no task file for job
  \<open>42\<close>, but the archive has a member of that name: with \<^verbatim>\<open>--tarball\<close> the extraction
  creates the file, the task is unpickled, its work is called, and \<open>main\<close> returns without
  printing anything.
\<close>

theorem task_file_supplied_by_the_archive:
  "lookup (world_of ''/home'' staged_blob_in_archive) ''/stage'' = Some Dir
   \<and> fs (world_of ''/home'' staged_blob_in_archive) ''/stage/42.job-instance.pickle'' = None
   \<and> fst (main env0 [''sge_runner.py'', ''/stage'', ''/proj'', ''42'', ''--tarball'']
            (world_of ''/home'' staged_blob_in_archive)) = Inr ()
   \<and> stdout (snd (main env0 [''sge_runner.py'', ''/stage'', ''/proj'', ''42'', ''--tarball'']
            (world_of ''/home'' staged_blob_in_archive))) = []
   \<and> Ev_work \<in> set (trace (snd (main env0
            [''sge_runner.py'', ''/stage'', ''/proj'', ''42'', ''--tarball'']
            (world_of ''/home'' staged_blob_in_archive))))"
  by (simp add: runner_defs staging_defs)

text \<open>
  C8, amended. For every invocation where the staging directory exists and holds no file
  \<^verbatim>\<open><job_id>.job-instance.pickle\<close>, and where, with \<^verbatim>\<open>--tarball\<close> given, the archive that
  is unpacked has no member that is written to that path: \<open>main\<close> fails with an exception
  deriving from \<^verbatim>\<open>Exception\<close>, prints its rendering to standard output (and nothing
  else), raises it again, and never calls the task's work.
\<close>

theorem missing_task_file_fails:
  assumes "args = prog # s # p # j # rest"
    and "lookup w s = Some Dir"
    and "normalised (cwd w)"
    and "fs w (resolve (resolve (cwd w) s) (j @ ''.job-instance.pickle'')) = None"
    and "''--tarball'' \<in> set args \<longrightarrow> (\<forall>ms n c.
        lookup (w\<lparr>cwd := resolve (cwd w) s\<rparr>) (os_path_join s ''packages.tar'')
          = Some (File (Tar ms))
        \<longrightarrow> Member n c \<in> set ms
        \<longrightarrow> resolve (resolve (cwd w) s) n
              \<noteq> resolve (resolve (cwd w) s) (j @ ''.job-instance.pickle''))"
  shows "\<exists>e w'. main env args w = (Inl e, w') \<and> is_Exception e
       \<and> stdout w' = stdout w @ [str_exn e @ newline]
       \<and> count_list (trace w') Ev_work = count_list (trace w) Ev_work"
proof -
  let ?v = "(logging_basicConfig 30 (snd (start_debug env (''--debug'' \<in> set args) w)))
        \<lparr>sys_path := sys_path w @ [p]\<rparr>"
  from assms(2) have ex: "os_path_exists w s"
    by (simp add: os_path_exists_def)
  have v: "cwd ?v = cwd w" "fs ?v = fs w" "stdout ?v = stdout w" "trace ?v = trace w"
    by simp_all
  have lk: "lookup ?v q = lookup w q" for q
    by (rule lookup_cong) (simp_all add: v)
  have lk': "lookup (?v\<lparr>cwd := d\<rparr>) q = lookup (w\<lparr>cwd := d\<rparr>) q" for d q
    by (rule lookup_cong) (simp_all add: v)
  obtain r w1 where run: "main_try env args w = (r, w1)"
    by (cases "main_try env args w")
  with main_try_positionals [OF assms(1) ex, of env]
  have dw: "do_work_on_compute_node env s j (''--tarball'' \<in> set args)
       (fst (start_debug env (''--debug'' \<in> set args) w)) (''--debug'' \<in> set args) ?v
     = (r, w1)"
    by simp
  have "\<exists>e. r = Inl e \<and> is_Exception e \<and> stdout w1 = stdout ?v
       \<and> count_list (trace w1) Ev_work = count_list (trace ?v) Ev_work"
    using assms(2,3,4,5)
    by (intro do_work_on_compute_node_without_blob [OF dw]) (simp_all only: v lk lk')
  then obtain e where e: "r = Inl e" "is_Exception e" "stdout w1 = stdout w"
      "count_list (trace w1) Ev_work = count_list (trace w) Ev_work"
    by (auto simp: v)
  with run have "main env args w = (Inl e, print_stdout (str_exn e) w1)"
    by (simp add: main_def)
  with e show ?thesis by simp
qed

theorem missing_task_file_fails_witness:
  "[''sge_runner.py'', ''/stage'', ''/proj'', ''42'', ''--tarball''] =
      ''sge_runner.py'' # ''/stage'' # ''/proj'' # ''42'' # [''--tarball'']
   \<and> lookup (world_of ''/home'' staged_no_blob) ''/stage'' = Some Dir
   \<and> normalised (cwd (world_of ''/home'' staged_no_blob))
   \<and> fs (world_of ''/home'' staged_no_blob)
        (resolve (resolve (cwd (world_of ''/home'' staged_no_blob)) ''/stage'')
           (''42'' @ ''.job-instance.pickle'')) = None
   \<and> (\<exists>e w'. main env0 [''sge_runner.py'', ''/stage'', ''/proj'', ''42'', ''--tarball'']
                 (world_of ''/home'' staged_no_blob) = (Inl e, w')
         \<and> is_Exception e
         \<and> stdout w' = stdout (world_of ''/home'' staged_no_blob) @ [str_exn e @ newline]
         \<and> count_list (trace w') Ev_work =
             count_list (trace (world_of ''/home'' staged_no_blob)) Ev_work)"
proof -
  let ?args = "[''sge_runner.py'', ''/stage'', ''/proj'', ''42'', ''--tarball'']"
  let ?w = "world_of ''/home'' staged_no_blob"
  have a: "?args = ''sge_runner.py'' # ''/stage'' # ''/proj'' # ''42'' # [''--tarball'']"
    by simp
  have b: "lookup ?w ''/stage'' = Some Dir"
    by (simp add: runner_defs staging_defs)
  have c: "normalised (cwd ?w)"
    by (simp add: normalised_def runner_defs staging_defs)
  have d: "fs ?w (resolve (resolve (cwd ?w) ''/stage'') (''42'' @ ''.job-instance.pickle'')) = None"
    by (simp add: runner_defs staging_defs)
  have e: "''--tarball'' \<in> set ?args \<longrightarrow> (\<forall>ms n c.
        lookup (?w\<lparr>cwd := resolve (cwd ?w) ''/stage''\<rparr>) (os_path_join ''/stage'' ''packages.tar'')
          = Some (File (Tar ms))
        \<longrightarrow> Member n c \<in> set ms
        \<longrightarrow> resolve (resolve (cwd ?w) ''/stage'') n
              \<noteq> resolve (resolve (cwd ?w) ''/stage'') (''42'' @ ''.job-instance.pickle''))"
    by (simp add: runner_defs staging_defs)
  from missing_task_file_fails [OF a b c d e, of env0] b c d show ?thesis
    by blast
qed

subsection \<open>Unpacking the archive\<close>

lemma extract_members_keeps_files:
  assumes "extract_members ms w = (r, w')" and "\<exists>c. fs w q = Some (File c)"
  shows "\<exists>c. fs w' q = Some (File c)"
  using assms
proof (induction ms w rule: extract_members.induct)
  case (1 w)
  then show ?case by auto
next
  case (2 ms w)
  then show ?case by auto
next
  case (3 n c ms w)
  obtain r1 w1 where step: "tar_extract n c w = (r1, w1)"
    by (cases "tar_extract n c w")
  note eff = tar_extract_effect [OF step]
  show ?case
  proof (cases r1)
    case (Inl e)
    with 3 step eff show ?thesis by auto
  next
    case (Inr u)
    with 3(2) step have rest: "extract_members ms w1 = (r, w')" by simp
    from eff Inr 3(3) have "\<exists>c. fs w1 q = Some (File c)"
      by (cases "q = resolve (cwd w) n") auto
    from 3(1) [OF step [symmetric] Inr rest this] show ?thesis .
  qed
qed

lemma extract_members_all_written:
  assumes "Damaged \<notin> set ms"
    and "\<forall>n c. Member n c \<in> set ms \<longrightarrow> fs w (resolve (cwd w) n) \<noteq> Some Dir"
  shows "\<exists>w'. extract_members ms w = (Inr (), w')
       \<and> (\<forall>n c. Member n c \<in> set ms \<longrightarrow> (\<exists>c'. fs w' (resolve (cwd w) n) = Some (File c')))"
  using assms
proof (induction ms arbitrary: w)
  case Nil
  then show ?case by simp
next
  case (Cons m ms)
  from Cons.prems(1) obtain n c where m: "m = Member n c"
    by (cases m) auto
  from Cons.prems(2) m have free: "fs w (resolve (cwd w) n) \<noteq> Some Dir"
    by auto
  obtain r1 w1 where step: "tar_extract n c w = (r1, w1)"
    by (cases "tar_extract n c w")
  note eff = tar_extract_effect [OF step]
  from eff free have r1: "r1 = Inr ()"
    by (cases r1) auto
  from eff r1 have here: "fs w1 (resolve (cwd w) n) = Some (File c)" and cw: "cwd w1 = cwd w"
    by simp_all
  from Cons.prems eff have "Damaged \<notin> set ms"
    "\<forall>n c. Member n c \<in> set ms \<longrightarrow> fs w1 (resolve (cwd w1) n) \<noteq> Some Dir"
    by auto
  from Cons.IH [OF this] obtain w' where rest: "extract_members ms w1 = (Inr (), w')"
    and written: "\<forall>n c. Member n c \<in> set ms \<longrightarrow> (\<exists>c'. fs w' (resolve (cwd w1) n) = Some (File c'))"
    by blast
  from extract_members_keeps_files [OF rest] here
  have "\<exists>c'. fs w' (resolve (cwd w) n) = Some (File c')" by blast
  with written cw m step r1 rest show ?case
    by auto
qed

lemma is_abs_join: "is_abs a \<Longrightarrow> is_abs (os_path_join a b)"
  by (cases a) (auto simp: os_path_join_def is_abs_def)

text \<open>
  With an absolute staging directory the extractor unpacks the archive: every member of a
  readable archive is a file under the staging directory afterwards, and the working
  directory is the one before.
\<close>

lemma absolute_staging_dir_is_unpacked:
  assumes abs: "is_abs work_dir"
    and dir: "lookup w work_dir = Some Dir"
    and tar: "lookup w (os_path_join work_dir ''packages.tar'') = Some (File (Tar ms))"
    and sound: "Damaged \<notin> set ms"
    and free: "\<forall>n c. Member n c \<in> set ms
                \<longrightarrow> fs w (resolve (resolve (cwd w) work_dir) n) \<noteq> Some Dir"
    and norm: "normalised (cwd w)"
    and here: "fs w (cwd w) = Some Dir"
  shows "\<exists>w'. extract_packages_archive work_dir w = (Inr (), w') \<and> cwd w' = cwd w
       \<and> (\<forall>n c. Member n c \<in> set ms
            \<longrightarrow> (\<exists>c'. fs w' (resolve (resolve (cwd w) work_dir) n) = Some (File c')))"
proof -
  let ?pkg = "os_path_join work_dir ''packages.tar''"
  let ?d = "resolve (cwd w) work_dir"
  let ?w1 = "log_event (Ev_chdir ?d) w\<lparr>cwd := ?d\<rparr>"
  let ?w2 = "log_event (Ev_tar_open (resolve ?d ?pkg)) ?w1"
  have pkg_abs: "is_abs ?pkg" using abs by (rule is_abs_join)
  have pkg_ne: "?pkg \<noteq> []" using pkg_abs by (auto simp: is_abs_def)
  have same: "resolve ?d ?pkg = resolve (cwd w) ?pkg"
    using pkg_abs by (simp add: resolve_absolute)
  have c1: "os_chdir work_dir w = (Inr (), ?w1)"
    using dir by (simp add: os_chdir_def Let_def)
  have "lookup ?w1 ?pkg = lookup w ?pkg"
    using same pkg_ne by (simp add: lookup_def)
  with tar have c2: "tarfile_open ?pkg ?w1 = (Inr ms, ?w2)"
    by (simp add: tarfile_open_def Let_def)
  have "\<forall>n c. Member n c \<in> set ms \<longrightarrow> fs ?w2 (resolve (cwd ?w2) n) \<noteq> Some Dir"
    using free by simp
  from extract_members_all_written [OF sound this]
  obtain w3 where c3: "extract_members ms ?w2 = (Inr (), w3)"
    and written: "\<forall>n c. Member n c \<in> set ms \<longrightarrow> (\<exists>c'. fs w3 (resolve ?d n) = Some (File c'))"
    by auto
  note fr = extract_members_frame [OF c3]
  from norm have cwd_ne: "cwd w \<noteq> []"
    by (auto simp: normalised_def is_abs_def)
  from fr here have back_dir: "fs w3 (cwd w) = Some Dir"
    by simp
  have curdir: "os_path_abspath w ''.'' = cwd w"
    using norm by (simp add: os_path_abspath_def resolve_dot)
  let ?w4 = "sys_path_insert_empty w3"
  have "lookup ?w4 (cwd w) = Some Dir"
    using back_dir cwd_ne norm by (simp add: lookup_def resolve_normalised)
  then obtain w' where c4: "os_chdir (cwd w) ?w4 = (Inr (), w')"
    and w': "cwd w' = cwd w" "fs w' = fs w3"
    using norm by (simp add: os_chdir_def Let_def resolve_normalised)
  from tar have "os_path_exists w ?pkg"
    by (simp add: os_path_exists_def)
  then have "extract_packages_archive work_dir w = (Inr (), w')"
    by (simp add: extract_packages_archive_def Let_def curdir c1 c2 c3 c4 and_then_def)
  with w' written show ?thesis by auto
qed

text \<open>
  C7 at a relative staging directory. The process is in \<^verbatim>\<open>/home\<close> and is given the staging
  directory \<^verbatim>\<open>stage\<close>, which exists and holds a readable archive with the member
  \<^verbatim>\<open>helper.mod\<close>. The extractor checks \<^verbatim>\<open>stage/packages.tar\<close> from \<^verbatim>\<open>/home\<close>, changes into
  \<^verbatim>\<open>stage\<close> and then opens \<^verbatim>\<open>stage/packages.tar\<close> again, now from inside the staging
  directory: the file is not found, no member is written, the working directory is left
  in the staging directory, and \<open>main\<close> fails. Without \<^verbatim>\<open>--tarball\<close> the same directory is
  served: the materializer opens the task file by its bare name.
\<close>

theorem relative_staging_dir_is_not_unpacked:
  "lookup (world_of ''/home'' staged_relative) ''stage'' = Some Dir
   \<and> lookup (world_of ''/home'' staged_relative) (os_path_join ''stage'' ''packages.tar'') =
       Some (File (Tar [Member ''helper.mod'' (Bytes ''code'')]))
   \<and> fst (extract_packages_archive ''stage'' (world_of ''/home'' staged_relative)) =
       Inl (EnvironmentError ENOENT ''stage/packages.tar'')
   \<and> fs (snd (extract_packages_archive ''stage'' (world_of ''/home'' staged_relative)))
        (resolve (resolve ''/home'' ''stage'') ''helper.mod'') = None
   \<and> cwd (snd (extract_packages_archive ''stage'' (world_of ''/home'' staged_relative))) =
       ''/home/stage''
   \<and> cwd (world_of ''/home'' staged_relative) = ''/home''
   \<and> fst (main env0 [''sge_runner.py'', ''stage'', ''/proj'', ''42'', ''--tarball'']
            (world_of ''/home'' staged_relative)) =
       Inl (EnvironmentError ENOENT ''stage/packages.tar'')
   \<and> fst (main env0 [''sge_runner.py'', ''stage'', ''/proj'', ''42'']
            (world_of ''/home'' staged_relative)) = Inr ()"
  by (simp add: runner_defs staging_defs)

end
